theory Spec2Isabelle
  imports Main "HOL-Library.Char_ord" "HOL-Library.List_Lexorder"
begin

section \<open>Values, the serializer and the commands of a session\<close>

text \<open>
  The values that travel between Python and JavaScript are JSON data. A value that is
  itself a \<open>Model\<close> instance is not one of them: the entity reference of such an
  instance is treated with the registry, in the section on \<open>__json__\<close> and
  \<open>__from_json__\<close>.
\<close>

datatype jvalue =
    JNone
  | JBool bool
  | JInt int
  | JStr string
  | JList "jvalue list"
  | JDict "(string \<times> jvalue) list"

text \<open>
  Modelled from the spec: \<open>serializer\<close> of \<open>flexx.app.serialize\<close> is imported by
  \<open>model.py\<close> and is not part of the sources. Section 4.5: \<open>encode(value) -> text\<close>,
  \<open>decode(text) -> value\<close>, plain scalars and containers use a direct structural
  encoding. A text is represented by the value it encodes.
\<close>

datatype jtext = Text jvalue

definition saves :: "jvalue \<Rightarrow> jtext" where
  "saves v = Text v"

fun loads :: "jtext \<Rightarrow> jvalue" where
  "loads (Text v) = v"

datatype error =
    AttributeError
  | KeyError
  | TypeError
  | ValueError
  | RuntimeError string

text \<open>
  The commands that the Python side hands to \<open>self._session._exec\<close>, one constructor
  for each format string of \<open>model.py\<close>, with the values that fill it:
  \<^item> \<open>Instantiate id clsname txt\<close>:
    \<^verbatim>\<open>flexx.instances.<id> = new <clsname>("<id>", <txt>);\<close>
  \<^item> \<open>Set_prop_from_py id name txt\<close>:
    \<^verbatim>\<open>flexx.instances.<id>._set_prop_from_py("<name>", "<txt>");\<close>
  \<^item> \<open>Set_event_types_py id txt\<close>:
    \<^verbatim>\<open>flexx.instances.<id>._set_event_types_py(<txt>);\<close>
  \<^item> \<open>Emit_from_py id type_txt txt\<close>:
    \<^verbatim>\<open>flexx.instances.<id>._emit_from_py(<type_txt>, '<txt>');\<close>
  \<^item> \<open>Call_js id call\<close>: \<^verbatim>\<open>flexx.instances.<id>.<call>;\<close>
\<close>

datatype command =
    Instantiate string string jtext
  | Set_prop_from_py string string jtext
  | Set_event_types_py string jtext
  | Emit_from_py string jtext jtext
  | Call_js string string

text \<open>
  The messages that the JavaScript side passes to \<open>window.flexx.ws.send\<close>:
  \<^verbatim>\<open>'SETPROP ' + [id, name, txt].join(' ')\<close>,
  \<^verbatim>\<open>'EVENT ' + [id, type, txt].join(' ')\<close> and
  \<^verbatim>\<open>'REG_EVENTS ' + [id, text].join(' ')\<close>.
\<close>

datatype ws_message =
    SETPROP string string jtext
  | EVENT string string jtext
  | REG_EVENTS string jtext

section \<open>Properties\<close>

text \<open>
  The function that a \<open>Property\<close> descriptor wraps, such as
  \<^verbatim>\<open>def count(self, v=0): return int(v)\<close>: the default of its argument, and its body,
  which validates and normalizes a value or raises.
\<close>

datatype pfunc = PFunc (pdefault: jvalue) (pbody: "jvalue \<Rightarrow> error + jvalue")

text \<open>\<^verbatim>\<open>def stub_prop_func(self, v=None): return v\<close>\<close>

definition stub_prop_func :: pfunc where
  "stub_prop_func = PFunc JNone Inr"

text \<open>A scheduled callback of \<open>call_later\<close>; the only one is the drain of pending events.\<close>

datatype callback = Emit_pending_from_js

section \<open>The Python side of a Model instance\<close>

text \<open>
  The state of one instance, with the parts of its class and of its collaborators that its
  methods read and write:
  \<^item> \<open>properties\<close> is \<open>__properties__\<close> of the class, each name with its function;
  \<^item> \<open>proxy_properties\<close> is \<open>__proxy_properties__\<close> of the class;
  \<^item> \<open>prop_values\<close> holds the stored value of each property;
  \<^item> \<open>event_types_js\<close> is \<open>self._event_types_js\<close>, the list of the event types that
    JavaScript has handlers for;
  \<^item> \<open>pending_events_from_js\<close> is the queue \<open>self.__pending_events_from_js\<close>;
  \<^item> \<open>session_exec\<close> lists the commands this instance has passed to
    \<open>self._session._exec\<close>, in order;
  \<^item> \<open>session_registered\<close> lists the classes it has passed to
    \<open>self._session.register_model_class\<close>;
  \<^item> \<open>scheduled\<close> lists the callbacks it has passed to \<open>call_later\<close> that have not
    run yet;
  \<^item> \<open>emitted\<close> lists the events that reached \<open>HasEvents.emit\<close>, in order.
\<close>

record model =
  model_id :: string
  properties :: "(string \<times> pfunc) list"
  proxy_properties :: "string list"
  prop_values :: "string \<rightharpoonup> jvalue"
  event_types_js :: "string list"
  pending_events_from_js :: "(string \<times> jvalue) list"
  session_exec :: "command list"
  session_registered :: "string list"
  scheduled :: "callback list"
  emitted :: "(string \<times> jvalue) list"

text \<open>\<open>self._session._exec(cmd)\<close>\<close>

definition exec :: "model \<Rightarrow> command \<Rightarrow> model" where
  "exec self cmd = self\<lparr>session_exec := session_exec self @ [cmd]\<rparr>"

text \<open>\<open>getattr(self, name)\<close> for the name of a property: its stored value.\<close>

definition getattr :: "model \<Rightarrow> string \<Rightarrow> error + jvalue" where
  "getattr self name =
     (case prop_values self name of None \<Rightarrow> Inl AttributeError | Some v \<Rightarrow> Inr v)"

text \<open>
  Modelled from the spec: \<open>HasEvents._set_prop\<close> of \<open>flexx.event\<close>, the base class
  method that \<open>super()._set_prop(name, value)\<close> calls, is not part of the sources.
  Section 4.3: validate/normalize, store. The value is passed through the function of the
  property and the result is stored; a name that is no property has no function.
\<close>

definition HasEvents_set_prop :: "model \<Rightarrow> string \<Rightarrow> jvalue \<Rightarrow> error + model" where
  "HasEvents_set_prop self name v =
     (case map_of (properties self) name of
        None \<Rightarrow> Inl AttributeError
      | Some f \<Rightarrow>
          (case pbody f v of
             Inl e \<Rightarrow> Inl e
           | Inr v2 \<Rightarrow> Inr (self\<lparr>prop_values := (prop_values self)(name \<mapsto> v2)\<rparr>)))"

text \<open>
  Modelled from the spec: \<open>HasEvents._init_prop\<close>, the base class method that
  \<open>super()._init_prop(name)\<close> calls, is not part of the sources. Section 4.2: defaults are
  established during base construction. The function of the property is called on the
  default of its argument and the result is stored.
\<close>

definition HasEvents_init_prop :: "model \<Rightarrow> string \<Rightarrow> error + model" where
  "HasEvents_init_prop self name =
     (case map_of (properties self) name of
        None \<Rightarrow> Inl AttributeError
      | Some f \<Rightarrow>
          (case pbody f (pdefault f) of
             Inl e \<Rightarrow> Inl e
           | Inr v2 \<Rightarrow> Inr (self\<lparr>prop_values := (prop_values self)(name \<mapsto> v2)\<rparr>)))"

text \<open>
  Modelled from the spec: \<open>HasEvents.emit\<close>, the base class method that
  \<open>super().emit(type, ev)\<close> calls, is not part of the sources. Section 4.4: local emission
  hands the event to the locally registered handlers. It returns the event.
\<close>

definition HasEvents_emit :: "model \<Rightarrow> string \<Rightarrow> jvalue \<Rightarrow> model \<times> jvalue" where
  "HasEvents_emit self type ev = (self\<lparr>emitted := emitted self @ [(type, ev)]\<rparr>, ev)"

text \<open>\<open>Model._set_prop_from_js\<close> and \<open>Model._set_prop\<close>\<close>

definition Model_set_prop :: "model \<Rightarrow> string \<Rightarrow> jvalue \<Rightarrow> bool \<Rightarrow> error + model" where
  "Model_set_prop self name v fromjs =
     (let isproxy = name \<in> set (proxy_properties self) in
      case (if fromjs \<or> \<not> isproxy then HasEvents_set_prop self name v else Inr self) of
        Inl e \<Rightarrow> Inl e
      | Inr self1 \<Rightarrow>
          if \<not> (fromjs \<and> isproxy) then
            (case (if \<not> isproxy then getattr self1 name else Inr v) of
               Inl e \<Rightarrow> Inl e
             | Inr v1 \<Rightarrow>
                 Inr (exec self1 (Set_prop_from_py (model_id self1) name (saves v1))))
          else Inr self1)"

definition Model_set_prop_from_js :: "model \<Rightarrow> string \<Rightarrow> jtext \<Rightarrow> error + model" where
  "Model_set_prop_from_js self name txt = Model_set_prop self name (loads txt) True"

text \<open>\<open>Model._init_prop\<close>; for a property that is no proxy the base method runs twice.\<close>

definition Model_init_prop :: "model \<Rightarrow> string \<Rightarrow> error + model" where
  "Model_init_prop self name =
     (let isproxy = name \<in> set (proxy_properties self) in
      case HasEvents_init_prop self name of
        Inl e \<Rightarrow> Inl e
      | Inr self1 \<Rightarrow>
          if \<not> isproxy then
            (case HasEvents_init_prop self1 name of
               Inl e \<Rightarrow> Inl e
             | Inr self2 \<Rightarrow>
                 (case getattr self2 name of
                    Inl e \<Rightarrow> Inl e
                  | Inr v \<Rightarrow>
                      Inr (exec self2 (Set_prop_from_py (model_id self2) name (saves v)))))
          else Inr self1)"

text \<open>\<open>Model.emit\<close>\<close>

definition Model_emit :: "model \<Rightarrow> string \<Rightarrow> jvalue \<Rightarrow> bool \<Rightarrow> model" where
  "Model_emit self type ev fromjs =
     (let (self1, ev1) = HasEvents_emit self type ev in
      if \<not> fromjs \<and> type \<in> set (event_types_js self1) then
        exec self1 (Emit_from_py (model_id self1) (saves (JStr type)) (saves ev1))
      else self1)"






section \<open>Construction of an instance\<close>

text \<open>
  What \<open>Model.__init__\<close> reads of the class of the new instance: its name, its
  \<open>__properties__\<close> with their functions, its \<open>__proxy_properties__\<close>, and the
  \<open>local_connection_strings\<close> of each handler in \<open>__handlers__\<close> and in
  \<open>JS.__handlers__\<close>.
\<close>

record model_class =
  class_name :: string
  class_properties :: "(string \<times> pfunc) list"
  class_proxy_properties :: "string list"
  class_handlers :: "(string \<times> string list) list"
  class_JS_handlers :: "(string \<times> string list) list"

text \<open>
  \<open>Model.__setattr__\<close> on the name of a property. Modelled from the spec: the descriptor
  that \<open>HasEvents.__setattr__\<close> reaches is not part of the sources. Section 4.3: a local
  set through the public mutator takes the property-set path, \<open>self._set_prop(name,
  value)\<close>. The branch \<open>isinstance(value, Model)\<close> of \<open>Model.__setattr__\<close> is not taken
  for JSON data.
\<close>

definition Model_setattr :: "model \<Rightarrow> string \<Rightarrow> jvalue \<Rightarrow> error + model" where
  "Model_setattr self name v = Model_set_prop self name v False"

text \<open>
  Modelled from the spec: \<open>HasEvents.__init__\<close>, which \<open>super().__init__(**kwargs)\<close>
  calls, is not part of the sources. Section 4.2: one SETPROP per property that receives an
  initial value, including defaults established during base construction; the initial
  values are applied through the normal property-set path. Each property receives one
  initial value: a property for which no value is given is initialized to its default,
  through \<open>_init_prop\<close>, and each given value is set, through \<open>setattr\<close>. The calls reach
  the methods of \<open>Model\<close>, which override those of the base class.
\<close>

fun init_props :: "model \<Rightarrow> string list \<Rightarrow> error + model" where
  "init_props self [] = Inr self"
| "init_props self (name # names) =
     (case Model_init_prop self name of
        Inl e \<Rightarrow> Inl e
      | Inr self1 \<Rightarrow> init_props self1 names)"

fun set_props :: "model \<Rightarrow> (string \<times> jvalue) list \<Rightarrow> error + model" where
  "set_props self [] = Inr self"
| "set_props self ((name, v) # kwargs) =
     (case Model_setattr self name v of
        Inl e \<Rightarrow> Inl e
      | Inr self1 \<Rightarrow> set_props self1 kwargs)"

definition HasEvents_init :: "model \<Rightarrow> (string \<times> jvalue) list \<Rightarrow> error + model" where
  "HasEvents_init self kwargs =
     (case init_props self
             (filter (\<lambda>name. name \<notin> set (map fst kwargs)) (map fst (properties self))) of
        Inl e \<Rightarrow> Inl e
      | Inr self1 \<Rightarrow> set_props self1 kwargs)"

text \<open>
  The part of \<open>Model.__init__\<close> that follows the choice of the id: the class is
  registered with the session, the event types of both sides are collected, the
  JavaScript version is instantiated, the properties are initialized, \<open>_init\<close> does
  nothing.
\<close>

definition Model_init_with_id ::
  "model_class \<Rightarrow> string \<Rightarrow> (string \<times> jvalue) list \<Rightarrow> error + model" where
  "Model_init_with_id cls ident kwargs =
     (let clsname = ''flexx.classes.'' @ class_name cls;
          event_types_py = concat (map snd (class_handlers cls));
          event_types_js = concat (map snd (class_JS_handlers cls));
          self = \<lparr>model_id = ident,
                  properties = class_properties cls,
                  proxy_properties = class_proxy_properties cls,
                  prop_values = Map.empty,
                  event_types_js = event_types_js,
                  pending_events_from_js = [],
                  session_exec = [],
                  session_registered = [class_name cls],
                  scheduled = [],
                  emitted = []\<rparr>;
          cmd = Instantiate ident clsname (saves (JList (map JStr event_types_py)))
      in HasEvents_init (exec self cmd) kwargs)"

text \<open>Python's \<open>str\<close> on an integer.\<close>

definition digit :: "nat \<Rightarrow> char" where
  "digit d = ''0123456789'' ! d"

function str_nat :: "nat \<Rightarrow> string" where
  "str_nat n = (if n < 10 then [digit n] else str_nat (n div 10) @ [digit (n mod 10)])"
  by pat_completeness auto
termination
  by (relation "measure (\<lambda>n. n)") auto

declare str_nat.simps [simp del]

definition str :: "int \<Rightarrow> string" where
  "str i = (if i < 0 then CHR ''-'' # str_nat (nat (- i)) else str_nat (nat i))"

text \<open>
  The process: \<open>Model._counter\<close>, the weak dictionary \<open>Model._instances\<close> from ids to
  objects, and the live objects themselves, each under its identity. \<open>fresh\<close> is the
  identity that the next new object gets.
\<close>

record process =
  Model_counter :: int
  Model_instances :: "string \<rightharpoonup> nat"
  objects :: "nat \<rightharpoonup> model"
  fresh :: nat

text \<open>
  \<open>Model.__init__\<close>, for a new object of class \<open>cls\<close>; it returns the identity of the
  object and the process that holds it.
\<close>

definition Model_init ::
  "process \<Rightarrow> model_class \<Rightarrow> (string \<times> jvalue) list \<Rightarrow> error + (nat \<times> process)" where
  "Model_init w cls kwargs =
     (let self = fresh w;
          counter = Model_counter w + 1;
          ident = class_name cls @ str counter
      in case Model_init_with_id cls ident kwargs of
           Inl e \<Rightarrow> Inl e
         | Inr m \<Rightarrow>
             Inr (self, w\<lparr>Model_counter := counter,
                          Model_instances := (Model_instances w)(ident \<mapsto> self),
                          objects := (objects w)(self \<mapsto> m),
                          fresh := Suc self\<rparr>))"

text \<open>Instances constructed one after the other, of the given classes, without arguments.\<close>

fun construct_all :: "process \<Rightarrow> model_class list \<Rightarrow> error + (nat list \<times> process)" where
  "construct_all w [] = Inr ([], w)"
| "construct_all w (cls # clss) =
     (case Model_init w cls [] of
        Inl e \<Rightarrow> Inl e
      | Inr (r, w1) \<Rightarrow>
          (case construct_all w1 clss of
             Inl e \<Rightarrow> Inl e
           | Inr (rs, w2) \<Rightarrow> Inr (r # rs, w2)))"

text \<open>The process at the start: no instance yet.\<close>

definition process0 :: process where
  "process0 = \<lparr>Model_counter = 0, Model_instances = Map.empty, objects = Map.empty, fresh = 0\<rparr>"

text \<open>
  An object that nothing refers to any more is reclaimed; the weak dictionary drops the
  entries whose value it was.
\<close>

definition reclaim :: "process \<Rightarrow> nat \<Rightarrow> process" where
  "reclaim w r =
     w\<lparr>objects := (objects w)(r := None),
       Model_instances := (\<lambda>i. if Model_instances w i = Some r then None else Model_instances w i)\<rparr>"

section \<open>Entity references\<close>

text \<open>\<open>get_instance_by_id\<close>: \<open>Model._instances.get(id, None)\<close>\<close>

definition get_instance_by_id :: "process \<Rightarrow> string \<Rightarrow> nat option" where
  "get_instance_by_id w ident = Model_instances w ident"

text \<open>\<open>Model.__json__\<close>\<close>

definition Model_json :: "model \<Rightarrow> jvalue" where
  "Model_json self = JDict [(''__type__'', JStr ''Flexx-Model''), (''id'', JStr (model_id self))]"

text \<open>
  \<open>Model.__from_json__\<close>: \<open>get_instance_by_id(dct['id'])\<close>. The result \<open>Inr None\<close> is
  Python's \<open>None\<close>. The keys of the dictionary of instances are strings; a list or a
  dictionary is no key at all.
\<close>

fun Model_from_json :: "process \<Rightarrow> jvalue \<Rightarrow> error + nat option" where
  "Model_from_json w (JDict dct) =
     (case map_of dct ''id'' of
        None \<Rightarrow> Inl KeyError
      | Some (JStr ident) \<Rightarrow> Inr (get_instance_by_id w ident)
      | Some (JList _) \<Rightarrow> Inl TypeError
      | Some (JDict _) \<Rightarrow> Inl TypeError
      | Some _ \<Rightarrow> Inr None)"
| "Model_from_json w _ = Inl TypeError"

section \<open>The JavaScript side of a Model instance\<close>

text \<open>
  The state of the JavaScript object: \<open>ws\<close> is \<open>window.flexx.ws\<close>, \<open>None\<close> when the
  page is exported or shown in nbviewer, else the socket with the messages sent over it,
  in order.
\<close>

record js_model =
  js_id :: string
  js_properties :: "(string \<times> pfunc) list"
  js_proxy_properties :: "string list"
  js_prop_values :: "string \<rightharpoonup> jvalue"
  event_types_py :: "string list"
  ws :: "ws_message list option"
  js_emitted :: "(string \<times> jvalue) list"

text \<open>\<open>window.flexx.ws.send(msg)\<close>; without a socket the call raises.\<close>

definition ws_send :: "js_model \<Rightarrow> ws_message \<Rightarrow> error + js_model" where
  "ws_send self msg =
     (case ws self of
        None \<Rightarrow> Inl TypeError
      | Some sent \<Rightarrow> Inr (self\<lparr>ws := Some (sent @ [msg])\<rparr>))"

text \<open>\<open>self[name]\<close>; a missing value is JavaScript's \<open>undefined\<close>, here \<open>JNone\<close>.\<close>

definition js_getitem :: "js_model \<Rightarrow> string \<Rightarrow> jvalue" where
  "js_getitem self name = (case js_prop_values self name of None \<Rightarrow> JNone | Some v \<Rightarrow> v)"

text \<open>
  Modelled from the spec: the JavaScript version of \<open>HasEvents._set_prop\<close>, which
  \<open>super()._set_prop(name, value)\<close> calls, is not part of the sources. Section 4.3:
  validate/normalize, store, as on the Python side.
\<close>

definition JS_HasEvents_set_prop :: "js_model \<Rightarrow> string \<Rightarrow> jvalue \<Rightarrow> error + js_model" where
  "JS_HasEvents_set_prop self name v =
     (case map_of (js_properties self) name of
        None \<Rightarrow> Inl AttributeError
      | Some f \<Rightarrow>
          (case pbody f v of
             Inl e \<Rightarrow> Inl e
           | Inr v2 \<Rightarrow> Inr (self\<lparr>js_prop_values := (js_prop_values self)(name \<mapsto> v2)\<rparr>)))"

text \<open>\<open>Model.JS._set_prop\<close> and \<open>Model.JS._set_prop_from_py\<close>\<close>

definition JS_set_prop :: "js_model \<Rightarrow> string \<Rightarrow> jvalue \<Rightarrow> bool \<Rightarrow> error + js_model" where
  "JS_set_prop self name v frompy =
     (let isproxy = name \<in> set (js_proxy_properties self) in
      if ws self = None then JS_HasEvents_set_prop self name v
      else
        case (if frompy \<or> \<not> isproxy then JS_HasEvents_set_prop self name v else Inr self) of
          Inl e \<Rightarrow> Inl e
        | Inr self1 \<Rightarrow>
            if \<not> (frompy \<and> isproxy) then
              (let v1 = (if \<not> isproxy then js_getitem self1 name else v)
               in ws_send self1 (SETPROP (js_id self1) name (saves v1)))
            else Inr self1)"

definition JS_set_prop_from_py :: "js_model \<Rightarrow> string \<Rightarrow> jtext \<Rightarrow> error + js_model" where
  "JS_set_prop_from_py self name txt = JS_set_prop self name (loads txt) True"

section \<open>Proxies of a class\<close>

text \<open>
  The function that a descriptor wraps: one that the class body declares, or one of the
  three stubs of \<open>model.py\<close>.
\<close>

datatype func =
    Declared string
  | Stub_prop_func
  | Stub_emitter_func_py
  | Stub_emitter_func_js

text \<open>\<open>stub_emitter_func_py\<close> and \<open>stub_emitter_func_js\<close>\<close>

definition stub_emitter_func_py :: "jvalue list \<Rightarrow> error + jvalue" where
  "stub_emitter_func_py args = Inl (RuntimeError ''This emitter can only be called from JavaScript'')"

definition stub_emitter_func_js :: "jvalue list \<Rightarrow> error + jvalue" where
  "stub_emitter_func_js args = Inl (RuntimeError ''This emitter can only be called from Python'')"

text \<open>
  A call of the wrapped function; \<open>declared\<close> gives the functions that class bodies
  declare.
\<close>

fun call :: "(string \<Rightarrow> jvalue list \<Rightarrow> error + jvalue) \<Rightarrow> func \<Rightarrow> jvalue list \<Rightarrow> error + jvalue" where
  "call declared (Declared f) args = declared f args"
| "call declared Stub_prop_func args = Inr (case args of [] \<Rightarrow> JNone | v # _ \<Rightarrow> v)"
| "call declared Stub_emitter_func_py args = stub_emitter_func_py args"
| "call declared Stub_emitter_func_js args = stub_emitter_func_js args"

text \<open>
  An attribute of a class: an instance of \<open>Property\<close>, an instance of \<open>Emitter\<close>, or
  anything else. \<open>val.__class__(f, name, doc)\<close> makes a descriptor of the class of
  \<open>val\<close>, the same constructor.
\<close>

datatype attr = Property func | Emitter func | Other

datatype warning =
    JS_property_not_proxied string string
  | Py_property_not_proxied string string

text \<open>
  The class \<open>cls\<close> and its class \<open>cls.JS\<close> while \<open>ModelMeta.__init__\<close> sets up the
  proxies, from the loop over \<open>cls.JS.__dict__\<close> on:
  \<^item> \<open>cls_dict\<close> and \<open>JS_dict\<close> are \<open>cls.__dict__\<close> and \<open>cls.JS.__dict__\<close> in the order
    of \<open>items()\<close>;
  \<^item> \<open>cls_inherited\<close> and \<open>JS_inherited\<close> are the names that \<open>hasattr\<close> finds outside
    these dictionaries, on the bases and the metaclass;
  \<^item> \<open>cls_proxy_properties\<close> and \<open>JS_proxy_properties\<close> are the two lists
    \<open>__proxy_properties__\<close>;
  \<^item> \<open>warnings\<close> lists the calls of \<open>logging.warn\<close>, each with the name of the property
    and the name of the class.
\<close>

record klass =
  cls_name :: string
  cls_dict :: "(string \<times> attr) list"
  cls_inherited :: "string list"
  cls_proxy_properties :: "string list"
  JS_dict :: "(string \<times> attr) list"
  JS_inherited :: "string list"
  JS_proxy_properties :: "string list"
  warnings :: "warning list"

text \<open>\<open>setattr\<close> on a class: the entry is replaced where it stands, or added at the end.\<close>

fun setattr :: "(string \<times> attr) list \<Rightarrow> string \<Rightarrow> attr \<Rightarrow> (string \<times> attr) list" where
  "setattr [] name a = [(name, a)]"
| "setattr ((n, b) # d) name a = (if n = name then (n, a) # d else (n, b) # setattr d name a)"

definition hasattr_cls :: "klass \<Rightarrow> string \<Rightarrow> bool" where
  "hasattr_cls k name \<longleftrightarrow> name \<in> set (map fst (cls_dict k)) \<or> name \<in> set (cls_inherited k)"

definition hasattr_JS :: "klass \<Rightarrow> string \<Rightarrow> bool" where
  "hasattr_JS k name \<longleftrightarrow> name \<in> set (map fst (JS_dict k)) \<or> name \<in> set (JS_inherited k)"

text \<open>The body of the loop over \<open>cls.JS.__dict__.items()\<close>.\<close>

fun proxy_on_cls :: "klass \<Rightarrow> string \<times> attr \<Rightarrow> klass" where
  "proxy_on_cls k (name, Property f) =
     (if name \<in> set (JS_proxy_properties k) \<or> name \<in> set (cls_proxy_properties k) then k
      else if \<not> hasattr_cls k name then
        k\<lparr>cls_proxy_properties := cls_proxy_properties k @ [name],
          cls_dict := setattr (cls_dict k) name (Property Stub_prop_func)\<rparr>
      else k\<lparr>warnings := warnings k @ [JS_property_not_proxied name (cls_name k)]\<rparr>)"
| "proxy_on_cls k (name, Emitter f) =
     (if \<not> hasattr_cls k name then
        k\<lparr>cls_dict := setattr (cls_dict k) name (Emitter Stub_emitter_func_py)\<rparr>
      else k)"
| "proxy_on_cls k (name, Other) = k"

text \<open>
  The body of the loop over \<open>cls.__dict__.items()\<close>. Its branch for an emitter tests
  \<open>hasattr(cls, name)\<close> and sets the attribute on \<open>cls\<close>, as the source does.
\<close>

fun proxy_on_JS :: "klass \<Rightarrow> string \<times> attr \<Rightarrow> klass" where
  "proxy_on_JS k (name, Property f) =
     (if name \<in> set (JS_proxy_properties k) \<or> name \<in> set (cls_proxy_properties k) then k
      else if \<not> hasattr_JS k name then
        k\<lparr>JS_proxy_properties := JS_proxy_properties k @ [name],
          JS_dict := setattr (JS_dict k) name (Property Stub_prop_func)\<rparr>
      else k\<lparr>warnings := warnings k @ [Py_property_not_proxied name (cls_name k)]\<rparr>)"
| "proxy_on_JS k (name, Emitter f) =
     (if \<not> hasattr_cls k name then
        k\<lparr>cls_dict := setattr (cls_dict k) name (Emitter Stub_emitter_func_js)\<rparr>
      else k)"
| "proxy_on_JS k (name, Other) = k"

text \<open>
  The two loops of \<open>ModelMeta.__init__\<close>, the second over \<open>cls.__dict__\<close> as the first
  leaves it, and the sorting of the two lists of proxies.
\<close>

definition ModelMeta_init :: "klass \<Rightarrow> klass" where
  "ModelMeta_init k =
     (let k1 = foldl proxy_on_cls k (JS_dict k);
          k2 = foldl proxy_on_JS k1 (cls_dict k1)
      in k2\<lparr>cls_proxy_properties := sort (cls_proxy_properties k2),
            JS_proxy_properties := sort (JS_proxy_properties k2)\<rparr>)"

text \<open>The attribute that a class holds under a name in its own dictionary.\<close>

definition cls_attr :: "klass \<Rightarrow> string \<Rightarrow> attr option" where
  "cls_attr k name = map_of (cls_dict k) name"

definition JS_attr :: "klass \<Rightarrow> string \<Rightarrow> attr option" where
  "JS_attr k name = map_of (JS_dict k) name"

section \<open>What construction is expected to send\<close>

text \<open>The value that the function of a property makes of a value, where it accepts it.\<close>

definition normalized :: "(string \<times> pfunc) list \<Rightarrow> string \<Rightarrow> jvalue \<Rightarrow> jvalue" where
  "normalized props name v =
     (case map_of props name of
        None \<Rightarrow> v
      | Some f \<Rightarrow> (case pbody f v of Inl e \<Rightarrow> v | Inr v2 \<Rightarrow> v2))"

text \<open>The default of a property, as its function normalizes it.\<close>

definition default_value :: "(string \<times> pfunc) list \<Rightarrow> string \<Rightarrow> jvalue" where
  "default_value props name =
     (case map_of props name of
        None \<Rightarrow> JNone
      | Some f \<Rightarrow> normalized props name (pdefault f))"

text \<open>The command that carries the default of a property of the class.\<close>

definition default_command :: "model_class \<Rightarrow> string \<Rightarrow> string \<Rightarrow> command" where
  "default_command cls ident name =
     Set_prop_from_py ident name (saves (default_value (class_properties cls) name))"

text \<open>
  The command that carries a value given for a property: normalized where this side owns
  the property, as given where the property is a proxy.
\<close>

definition value_command :: "model_class \<Rightarrow> string \<Rightarrow> string \<times> jvalue \<Rightarrow> command" where
  "value_command cls ident nv =
     Set_prop_from_py ident (fst nv)
       (saves (if fst nv \<in> set (class_proxy_properties cls) then snd nv
               else normalized (class_properties cls) (fst nv) (snd nv)))"

text \<open>
  The initial value of a property of the class: the given value where one is given, else
  the default, as the function of the property normalizes it.
\<close>

definition initial_value :: "model_class \<Rightarrow> (string \<times> jvalue) list \<Rightarrow> string \<Rightarrow> jvalue" where
  "initial_value cls kwargs name =
     (case map_of kwargs name of
        None \<Rightarrow> default_value (class_properties cls) name
      | Some v \<Rightarrow> normalized (class_properties cls) name v)"

text \<open>
  The texts of the commands, among the given ones, that set the property \<open>name\<close> of the
  instance \<open>ident\<close>, in order.
\<close>

fun pushes_of :: "string \<Rightarrow> string \<Rightarrow> command list \<Rightarrow> jtext list" where
  "pushes_of ident name [] = []"
| "pushes_of ident name (Set_prop_from_py i n t # cs) =
     (if i = ident \<and> n = name then t # pushes_of ident name cs else pushes_of ident name cs)"
| "pushes_of ident name (c # cs) = pushes_of ident name cs"

section \<open>Example classes\<close>

text \<open>
  \<^verbatim>\<open>def count(self, v=0): return max(0, int(v))\<close>, on integers.
\<close>

definition count_func :: pfunc where
  "count_func =
     PFunc (JInt 0) (\<lambda>v. case v of JInt i \<Rightarrow> Inr (JInt (max 0 i)) | _ \<Rightarrow> Inl ValueError)"

text \<open>
  A class \<open>Counter\<close> with the property \<open>count\<close> declared in Python and the property
  \<open>size\<close> declared in JavaScript: \<open>size\<close> is a proxy in Python, \<open>count\<close> is a proxy
  in JavaScript. JavaScript has a handler for the event type \<open>tick\<close>.
\<close>

definition Counter :: model_class where
  "Counter =
     \<lparr>class_name = ''Counter'',
      class_properties = [(''count'', count_func), (''size'', stub_prop_func)],
      class_proxy_properties = [''size''],
      class_handlers = [],
      class_JS_handlers = [(''on_tick'', [''tick''])]\<rparr>"

text \<open>An instance of \<open>Counter\<close> some time after its construction, and its twin.\<close>

definition counter_py :: model where
  "counter_py =
     \<lparr>model_id = ''Counter1'',
      properties = [(''count'', count_func), (''size'', stub_prop_func)],
      proxy_properties = [''size''],
      prop_values = [''count'' \<mapsto> JInt 0, ''size'' \<mapsto> JInt 0],
      event_types_js = [''tick''],
      pending_events_from_js = [],
      session_exec = [],
      session_registered = [''Counter''],
      scheduled = [],
      emitted = []\<rparr>"

definition counter_js :: js_model where
  "counter_js =
     \<lparr>js_id = ''Counter1'',
      js_properties = [(''count'', stub_prop_func), (''size'', count_func)],
      js_proxy_properties = [''count''],
      js_prop_values = [''count'' \<mapsto> JInt 0, ''size'' \<mapsto> JInt 0],
      event_types_py = [],
      ws = Some [],
      js_emitted = []\<rparr>"

text \<open>The same twin in an exported page: there is no socket.\<close>

definition counter_js_exported :: js_model where
  "counter_js_exported = counter_js\<lparr>ws := None\<rparr>"

text \<open>Classes without properties and handlers, by name.\<close>

definition plain_class :: "string \<Rightarrow> model_class" where
  "plain_class name =
     \<lparr>class_name = name, class_properties = [], class_proxy_properties = [],
      class_handlers = [], class_JS_handlers = []\<rparr>"

text \<open>
  Eleven instances: the first of a class \<open>Foo1\<close>, nine of a class \<open>Bar\<close>, the last of a
  class \<open>Foo\<close>.
\<close>

definition eleven :: "model_class list" where
  "eleven =
     [plain_class ''Foo1'', plain_class ''Bar'', plain_class ''Bar'', plain_class ''Bar'',
      plain_class ''Bar'', plain_class ''Bar'', plain_class ''Bar'', plain_class ''Bar'',
      plain_class ''Bar'', plain_class ''Bar'', plain_class ''Foo'']"

text \<open>
  A class with an emitter \<open>ping\<close> declared in Python and an emitter \<open>pong\<close> declared in
  JavaScript, before the proxies are set up.
\<close>

definition Pinger :: klass where
  "Pinger =
     \<lparr>cls_name = ''Pinger'',
      cls_dict = [(''ping'', Emitter (Declared ''ping''))],
      cls_inherited = [''emit'', ''id'', ''session''],
      cls_proxy_properties = [],
      JS_dict = [(''pong'', Emitter (Declared ''pong''))],
      JS_inherited = [''emit'', ''id''],
      JS_proxy_properties = [],
      warnings = []\<rparr>"

text \<open>
  A class whose JavaScript side declares a property \<open>title\<close> while its Python side has
  a method of that name; the Python side declares no property.
\<close>

definition Titled :: klass where
  "Titled =
     \<lparr>cls_name = ''Titled'',
      cls_dict = [(''title'', Other)],
      cls_inherited = [''emit'', ''id'', ''session''],
      cls_proxy_properties = [],
      JS_dict = [(''title'', Property (Declared ''title''))],
      JS_inherited = [''emit'', ''id''],
      JS_proxy_properties = [],
      warnings = []\<rparr>"

text \<open>
  A class whose Python side declares a property \<open>size\<close> while its JavaScript side has a
  method of that name; the JavaScript side declares no property.
\<close>

definition Sized :: klass where
  "Sized =
     \<lparr>cls_name = ''Sized'',
      cls_dict = [(''size'', Property (Declared ''size''))],
      cls_inherited = [''emit'', ''id'', ''session''],
      cls_proxy_properties = [],
      JS_dict = [(''size'', Other)],
      JS_inherited = [''emit'', ''id''],
      JS_proxy_properties = [],
      warnings = []\<rparr>"

section \<open>The instance of the example class after its construction\<close>

text \<open>
  An instance of \<open>Counter\<close> as \<open>Model.__init__\<close> leaves it when no initial values are
  given, and the process that holds it as its first object.
\<close>

definition counter_new :: model where
  "counter_new =
     \<lparr>model_id = ''Counter1'',
      properties = [(''count'', count_func), (''size'', stub_prop_func)],
      proxy_properties = [''size''],
      prop_values = [''count'' \<mapsto> JInt 0, ''size'' \<mapsto> JNone],
      event_types_js = [''tick''],
      pending_events_from_js = [],
      session_exec =
        [Instantiate ''Counter1'' ''flexx.classes.Counter'' (saves (JList [])),
         Set_prop_from_py ''Counter1'' ''count'' (saves (JInt 0))],
      session_registered = [''Counter''],
      scheduled = [],
      emitted = []\<rparr>"

definition process1 :: process where
  "process1 =
     \<lparr>Model_counter = 1, Model_instances = [''Counter1'' \<mapsto> 0],
      objects = [0 \<mapsto> counter_new], fresh = 1\<rparr>"

text \<open>The instance that \<open>Counter(count=5)\<close> constructs, and the process that holds it.\<close>

definition counter_given :: model where
  "counter_given =
     \<lparr>model_id = ''Counter1'',
      properties = [(''count'', count_func), (''size'', stub_prop_func)],
      proxy_properties = [''size''],
      prop_values = [''size'' \<mapsto> JNone, ''count'' \<mapsto> JInt 5],
      event_types_js = [''tick''],
      pending_events_from_js = [],
      session_exec =
        [Instantiate ''Counter1'' ''flexx.classes.Counter'' (saves (JList [])),
         Set_prop_from_py ''Counter1'' ''count'' (saves (JInt 5))],
      session_registered = [''Counter''],
      scheduled = [],
      emitted = []\<rparr>"

definition process_given :: process where
  "process_given =
     \<lparr>Model_counter = 1, Model_instances = [''Counter1'' \<mapsto> 0],
      objects = [0 \<mapsto> counter_given], fresh = 1\<rparr>"

section \<open>What the two loops of the metaclass preserve\<close>

text \<open>
  The first loop leaves the JavaScript class alone; on the Python class it adds
  attributes and proxy names, and only names that \<open>hasattr\<close> did not find; it adds
  warnings.
\<close>

definition grown_cls :: "klass \<Rightarrow> klass \<Rightarrow> bool" where
  "grown_cls k k' \<longleftrightarrow>
     JS_dict k' = JS_dict k \<and> JS_proxy_properties k' = JS_proxy_properties k \<and>
     JS_inherited k' = JS_inherited k \<and> cls_inherited k' = cls_inherited k \<and>
     cls_name k' = cls_name k \<and>
     (\<exists>added. cls_dict k' = cls_dict k @ added \<and> (\<forall>n \<in> set (map fst added). \<not> hasattr_cls k n)) \<and>
     (\<exists>names. cls_proxy_properties k' = cls_proxy_properties k @ names \<and> (\<forall>n \<in> set names. \<not> hasattr_cls k n)) \<and>
     (\<exists>ws. warnings k' = warnings k @ ws)"

text \<open>
  The second loop leaves the list of Python proxies alone; on the JavaScript class it adds
  attributes and proxy names, and only names that \<open>hasattr\<close> did not find there; it
  adds warnings.
\<close>

definition grown_JS :: "klass \<Rightarrow> klass \<Rightarrow> bool" where
  "grown_JS k k' \<longleftrightarrow>
     cls_proxy_properties k' = cls_proxy_properties k \<and>
     JS_inherited k' = JS_inherited k \<and> cls_inherited k' = cls_inherited k \<and>
     cls_name k' = cls_name k \<and>
     (\<exists>added. JS_dict k' = JS_dict k @ added \<and> (\<forall>n \<in> set (map fst added). \<not> hasattr_JS k n)) \<and>
     (\<exists>names. JS_proxy_properties k' = JS_proxy_properties k @ names \<and> (\<forall>n \<in> set names. \<not> hasattr_JS k n)) \<and>
     (\<exists>ws. warnings k' = warnings k @ ws)"

section \<open>Events\<close>






text \<open>
  C7. When the type of an event is not among the event types that JavaScript has
  registered with the instance, emitting it hands it to the local handlers and passes
  nothing to the session: the instance changes in its emitted events only.
\<close>

theorem emit_without_remote_interest:
  assumes "type \<notin> set (event_types_js self)"
  shows "Model_emit self type ev fromjs = self\<lparr>emitted := emitted self @ [(type, ev)]\<rparr>"
  using assms by (simp add: Model_emit_def HasEvents_emit_def)

theorem emit_without_remote_interest_witness:
  "''click'' \<notin> set (event_types_js counter_py) \<and>
   Model_emit counter_py ''click'' (JDict []) False =
     counter_py\<lparr>emitted := [(''click'', JDict [])]\<rparr>"
proof -
  have h: "''click'' \<notin> set (event_types_js counter_py)"
    by (simp add: counter_py_def)
  have e: "emitted counter_py = []"
    by (simp add: counter_py_def)
  show ?thesis
    using emit_without_remote_interest [OF h, of "JDict []" False] h e by simp
qed

section \<open>Setting a property\<close>

text \<open>
  C4, as the claim states it: a set that comes from JavaScript for a property that Python
  owns would pass no command to the session. Here \<open>count\<close> is owned by Python and the
  value \<open>-3\<close> arrives from JavaScript: the normalized value \<open>0\<close> is sent back.
\<close>

theorem remote_set_of_owned_property_sends_counterexample:
  "map_sum id session_exec (Model_set_prop_from_js counter_py ''count'' (saves (JInt (- 3)))) =
     Inr [Set_prop_from_py ''Counter1'' ''count'' (saves (JInt 0))]"
  by (simp add: Model_set_prop_from_js_def Model_set_prop_def HasEvents_set_prop_def
      counter_py_def count_func_def getattr_def exec_def saves_def)

text \<open>
  C4, amended. A set that comes from the other side for a property that the receiving
  side owns stores the normalized value and sends that normalized value back to the other
  side, in Python by a command to the session and in JavaScript by a \<open>SETPROP\<close> message.
\<close>

theorem remote_set_of_owned_property_is_echoed:
  assumes "name \<notin> set (proxy_properties self)"
    and "map_of (properties self) name = Some f" and "pbody f v = Inr v2"
    and "jname \<notin> set (js_proxy_properties js)"
    and "map_of (js_properties js) jname = Some g" and "pbody g w = Inr w2"
    and "ws js = Some sent"
  shows "Model_set_prop self name v True =
           Inr (exec (self\<lparr>prop_values := (prop_values self)(name \<mapsto> v2)\<rparr>)
                  (Set_prop_from_py (model_id self) name (saves v2))) \<and>
         JS_set_prop js jname w True =
           Inr (js\<lparr>js_prop_values := (js_prop_values js)(jname \<mapsto> w2),
                   ws := Some (sent @ [SETPROP (js_id js) jname (saves w2)])\<rparr>)"
proof -
  have py: "Model_set_prop self name v True =
      Inr (exec (self\<lparr>prop_values := (prop_values self)(name \<mapsto> v2)\<rparr>)
             (Set_prop_from_py (model_id self) name (saves v2)))"
    using assms(1-3)
    by (simp add: Model_set_prop_def HasEvents_set_prop_def getattr_def exec_def)
  have js: "JS_set_prop js jname w True =
      Inr (js\<lparr>js_prop_values := (js_prop_values js)(jname \<mapsto> w2),
              ws := Some (sent @ [SETPROP (js_id js) jname (saves w2)])\<rparr>)"
    using assms(4-7)
    by (simp add: JS_set_prop_def JS_HasEvents_set_prop_def js_getitem_def ws_send_def)
  from py js show ?thesis by simp
qed

theorem remote_set_of_owned_property_is_echoed_witness:
  "''count'' \<notin> set (proxy_properties counter_py) \<and>
   map_of (properties counter_py) ''count'' = Some count_func \<and>
   pbody count_func (JInt (- 3)) = Inr (JInt 0) \<and>
   ''size'' \<notin> set (js_proxy_properties counter_js) \<and>
   map_of (js_properties counter_js) ''size'' = Some count_func \<and>
   pbody count_func (JInt 4) = Inr (JInt 4) \<and>
   ws counter_js = Some [] \<and>
   Model_set_prop counter_py ''count'' (JInt (- 3)) True =
     Inr (exec (counter_py\<lparr>prop_values := (prop_values counter_py)(''count'' \<mapsto> JInt 0)\<rparr>)
            (Set_prop_from_py (model_id counter_py) ''count'' (saves (JInt 0)))) \<and>
   JS_set_prop counter_js ''size'' (JInt 4) True =
     Inr (counter_js\<lparr>js_prop_values := (js_prop_values counter_js)(''size'' \<mapsto> JInt 4),
            ws := Some ([] @ [SETPROP (js_id counter_js) ''size'' (saves (JInt 4))])\<rparr>)"
proof -
  have a: "''count'' \<notin> set (proxy_properties counter_py)"
    and b: "map_of (properties counter_py) ''count'' = Some count_func"
    by (simp_all add: counter_py_def)
  have c: "pbody count_func (JInt (- 3)) = Inr (JInt 0)"
    by (simp add: count_func_def)
  have d: "''size'' \<notin> set (js_proxy_properties counter_js)"
    and e: "map_of (js_properties counter_js) ''size'' = Some count_func"
    and g: "ws counter_js = Some []"
    by (simp_all add: counter_js_def)
  have f: "pbody count_func (JInt 4) = Inr (JInt 4)"
    by (simp add: count_func_def)
  show ?thesis
    using remote_set_of_owned_property_is_echoed [OF a b c d e f g] a b c d e f g by blast
qed

text \<open>
  C2, as the claim states it: a set of a proxy on its own side would never change the value
  that the owner stores. Here \<open>size\<close> is a proxy in Python and owned by JavaScript, where
  it is \<open>0\<close>. Setting it to \<open>7\<close> in Python passes a command to the session, and when
  JavaScript runs that command, it stores \<open>7\<close>.
\<close>

theorem proxy_set_reaches_owner_counterexample:
  "Model_set_prop counter_py ''size'' (JInt 7) False =
     Inr (counter_py\<lparr>session_exec := [Set_prop_from_py ''Counter1'' ''size'' (saves (JInt 7))]\<rparr>) \<and>
   js_prop_values counter_js ''size'' = Some (JInt 0) \<and>
   map_sum id (\<lambda>js. js_prop_values js ''size'')
     (JS_set_prop_from_py counter_js ''size'' (saves (JInt 7))) = Inr (Some (JInt 7))"
  by (simp add: counter_py_def counter_js_def Model_set_prop_def exec_def JS_set_prop_from_py_def
      JS_set_prop_def JS_HasEvents_set_prop_def ws_send_def js_getitem_def count_func_def saves_def)

text \<open>
  C2, amended. For a property that is a proxy on the local side:
  \<^item> in Python, a local set leaves the stored value as it is and passes the value as
    given to the session, as a command for the other side; a set that arrives from
    JavaScript is the set of the base class, which stores and sends nothing;
  \<^item> in JavaScript with a socket, a local set leaves the stored value as it is and sends
    the value as given in a \<open>SETPROP\<close> message; a set that arrives from Python is the set
    of the base class;
  \<^item> in JavaScript without a socket, a local set is the set of the base class: the value
    is stored and nothing is sent;
  \<^item> the side that owns the property applies the set that is forwarded to it: it stores
    the normalized value and sends that value back.
\<close>

theorem proxy_set_is_forwarded:
  "(name \<in> set (proxy_properties self) \<longrightarrow>
      Model_set_prop self name v False =
        Inr (exec self (Set_prop_from_py (model_id self) name (saves v))) \<and>
      Model_set_prop_from_js self name (saves v) = HasEvents_set_prop self name v) \<and>
   (name \<in> set (js_proxy_properties js) \<and> ws js = Some sent \<longrightarrow>
      JS_set_prop js name v False =
        Inr (js\<lparr>ws := Some (sent @ [SETPROP (js_id js) name (saves v)])\<rparr>) \<and>
      JS_set_prop_from_py js name (saves v) = JS_HasEvents_set_prop js name v) \<and>
   (name \<in> set (js_proxy_properties js) \<and> ws js = None \<longrightarrow>
      JS_set_prop js name v False = JS_HasEvents_set_prop js name v) \<and>
   (name \<notin> set (js_proxy_properties js) \<and> ws js = Some sent \<and>
    map_of (js_properties js) name = Some f \<and> pbody f v = Inr v2 \<longrightarrow>
      JS_set_prop_from_py js name (saves v) =
        Inr (js\<lparr>js_prop_values := (js_prop_values js)(name \<mapsto> v2),
                ws := Some (sent @ [SETPROP (js_id js) name (saves v2)])\<rparr>)) \<and>
   (name \<notin> set (proxy_properties self) \<and>
    map_of (properties self) name = Some f \<and> pbody f v = Inr v2 \<longrightarrow>
      Model_set_prop_from_js self name (saves v) =
        Inr (exec (self\<lparr>prop_values := (prop_values self)(name \<mapsto> v2)\<rparr>)
               (Set_prop_from_py (model_id self) name (saves v2))))"
proof -
  have py_proxy: "name \<in> set (proxy_properties self) \<longrightarrow>
      Model_set_prop self name v False =
        Inr (exec self (Set_prop_from_py (model_id self) name (saves v))) \<and>
      Model_set_prop_from_js self name (saves v) = HasEvents_set_prop self name v"
    by (simp add: Model_set_prop_from_js_def Model_set_prop_def saves_def split: sum.splits)
  have js_proxy: "name \<in> set (js_proxy_properties js) \<and> ws js = Some sent \<longrightarrow>
      JS_set_prop js name v False =
        Inr (js\<lparr>ws := Some (sent @ [SETPROP (js_id js) name (saves v)])\<rparr>) \<and>
      JS_set_prop_from_py js name (saves v) = JS_HasEvents_set_prop js name v"
    by (simp add: JS_set_prop_from_py_def JS_set_prop_def ws_send_def saves_def split: sum.splits)
  have js_exported: "name \<in> set (js_proxy_properties js) \<and> ws js = None \<longrightarrow>
      JS_set_prop js name v False = JS_HasEvents_set_prop js name v"
    by (simp add: JS_set_prop_def)
  have js_owner: "name \<notin> set (js_proxy_properties js) \<and> ws js = Some sent \<and>
    map_of (js_properties js) name = Some f \<and> pbody f v = Inr v2 \<longrightarrow>
      JS_set_prop_from_py js name (saves v) =
        Inr (js\<lparr>js_prop_values := (js_prop_values js)(name \<mapsto> v2),
                ws := Some (sent @ [SETPROP (js_id js) name (saves v2)])\<rparr>)"
    by (simp add: JS_set_prop_from_py_def JS_set_prop_def JS_HasEvents_set_prop_def
        js_getitem_def ws_send_def saves_def)
  have py_owner: "name \<notin> set (proxy_properties self) \<and>
    map_of (properties self) name = Some f \<and> pbody f v = Inr v2 \<longrightarrow>
      Model_set_prop_from_js self name (saves v) =
        Inr (exec (self\<lparr>prop_values := (prop_values self)(name \<mapsto> v2)\<rparr>)
               (Set_prop_from_py (model_id self) name (saves v2)))"
    by (simp add: Model_set_prop_from_js_def Model_set_prop_def HasEvents_set_prop_def
        getattr_def exec_def saves_def)
  from py_proxy js_proxy js_exported js_owner py_owner show ?thesis
    by (intro conjI)
qed

theorem proxy_set_is_forwarded_witness:
  "''size'' \<in> set (proxy_properties counter_py) \<and>
   Model_set_prop counter_py ''size'' (JInt 7) False =
     Inr (exec counter_py (Set_prop_from_py (model_id counter_py) ''size'' (saves (JInt 7)))) \<and>
   Model_set_prop_from_js counter_py ''size'' (saves (JInt 7)) =
     HasEvents_set_prop counter_py ''size'' (JInt 7) \<and>
   ''count'' \<in> set (js_proxy_properties counter_js) \<and> ws counter_js = Some [] \<and>
   JS_set_prop counter_js ''count'' (JInt 3) False =
     Inr (counter_js\<lparr>ws := Some ([] @ [SETPROP (js_id counter_js) ''count'' (saves (JInt 3))])\<rparr>) \<and>
   JS_set_prop_from_py counter_js ''count'' (saves (JInt 3)) =
     JS_HasEvents_set_prop counter_js ''count'' (JInt 3) \<and>
   ''count'' \<in> set (js_proxy_properties counter_js_exported) \<and>
   ws counter_js_exported = None \<and>
   JS_set_prop counter_js_exported ''count'' (JInt 3) False =
     JS_HasEvents_set_prop counter_js_exported ''count'' (JInt 3) \<and>
   ''size'' \<notin> set (js_proxy_properties counter_js) \<and>
   map_of (js_properties counter_js) ''size'' = Some count_func \<and>
   pbody count_func (JInt 7) = Inr (JInt 7) \<and>
   JS_set_prop_from_py counter_js ''size'' (saves (JInt 7)) =
     Inr (counter_js\<lparr>js_prop_values := (js_prop_values counter_js)(''size'' \<mapsto> JInt 7),
            ws := Some ([] @ [SETPROP (js_id counter_js) ''size'' (saves (JInt 7))])\<rparr>) \<and>
   ''count'' \<notin> set (proxy_properties counter_py) \<and>
   map_of (properties counter_py) ''count'' = Some count_func \<and>
   pbody count_func (JInt 3) = Inr (JInt 3) \<and>
   Model_set_prop_from_js counter_py ''count'' (saves (JInt 3)) =
     Inr (exec (counter_py\<lparr>prop_values := (prop_values counter_py)(''count'' \<mapsto> JInt 3)\<rparr>)
            (Set_prop_from_py (model_id counter_py) ''count'' (saves (JInt 3))))"
proof -
  have a: "''size'' \<in> set (proxy_properties counter_py)"
    and b: "''count'' \<notin> set (proxy_properties counter_py)"
    and c: "map_of (properties counter_py) ''count'' = Some count_func"
    by (simp_all add: counter_py_def)
  have d: "''count'' \<in> set (js_proxy_properties counter_js)"
    and e: "ws counter_js = Some []"
    and f: "''size'' \<notin> set (js_proxy_properties counter_js)"
    and g: "map_of (js_properties counter_js) ''size'' = Some count_func"
    by (simp_all add: counter_js_def)
  have h: "''count'' \<in> set (js_proxy_properties counter_js_exported)"
    and i: "ws counter_js_exported = None"
    by (simp_all add: counter_js_exported_def counter_js_def)
  have j: "pbody count_func (JInt 7) = Inr (JInt 7)"
    and k: "pbody count_func (JInt 3) = Inr (JInt 3)"
    by (simp_all add: count_func_def)
  note py_proxy = proxy_set_is_forwarded
    [of "''size''" counter_py "JInt 7", THEN conjunct1, rule_format, OF a]
  note js_proxy = proxy_set_is_forwarded
    [of "''count''" _ "JInt 3" counter_js "[]", THEN conjunct2, THEN conjunct1, rule_format,
     OF conjI, OF d e]
  note js_exported = proxy_set_is_forwarded
    [of "''count''" _ "JInt 3" counter_js_exported, THEN conjunct2, THEN conjunct2,
     THEN conjunct1, rule_format, OF conjI, OF h i]
  note js_owner = proxy_set_is_forwarded
    [of "''size''" _ "JInt 7" counter_js "[]" count_func "JInt 7", THEN conjunct2,
     THEN conjunct2, THEN conjunct2, THEN conjunct1, rule_format, OF conjI, OF f conjI,
     OF e conjI, OF g j]
  note py_owner = proxy_set_is_forwarded
    [of "''count''" counter_py "JInt 3" _ _ count_func "JInt 3", THEN conjunct2,
     THEN conjunct2, THEN conjunct2, THEN conjunct2, rule_format, OF conjI, OF b conjI,
     OF c k]
  from py_proxy js_proxy js_exported js_owner py_owner a b c d e f g h i j k
  show ?thesis by blast
qed

text \<open>
  C10, as the claim states it: without a socket the given value would be stored as it is,
  with no normalization. Here \<open>size\<close> is owned by JavaScript, its function maps negative
  numbers to \<open>0\<close>, and setting it to \<open>-3\<close> in an exported page stores \<open>0\<close>.
\<close>

theorem exported_set_prop_normalizes_counterexample:
  "ws counter_js_exported = None \<and>
   ''size'' \<notin> set (js_proxy_properties counter_js_exported) \<and>
   map_sum id (\<lambda>js. js_prop_values js ''size'')
     (JS_set_prop counter_js_exported ''size'' (JInt (- 3)) False) = Inr (Some (JInt 0))"
  by (simp add: counter_js_exported_def counter_js_def JS_set_prop_def JS_HasEvents_set_prop_def
      count_func_def)

text \<open>
  C10, amended. Without a socket \<open>_set_prop\<close> is the \<open>_set_prop\<close> of the base class, for
  every property, proxy or not, and whether the set comes from Python or not; nothing is
  sent, there is no socket. The value stored is what the function of the property makes of
  the given value: the given value itself for a proxy, whose function is
  \<open>stub_prop_func\<close>.
\<close>

theorem exported_set_prop_is_base_set_prop:
  assumes "ws js = None"
    and "map_of (js_properties js) name = Some f" and "pbody f v = Inr v2"
  shows "JS_set_prop js name v frompy = JS_HasEvents_set_prop js name v \<and>
         JS_set_prop js name v frompy =
           Inr (js\<lparr>js_prop_values := (js_prop_values js)(name \<mapsto> v2)\<rparr>)"
  using assms by (simp add: JS_set_prop_def JS_HasEvents_set_prop_def)

theorem exported_set_prop_is_base_set_prop_witness:
  "ws counter_js_exported = None \<and>
   map_of (js_properties counter_js_exported) ''count'' = Some stub_prop_func \<and>
   pbody stub_prop_func (JInt (- 3)) = Inr (JInt (- 3)) \<and>
   JS_set_prop counter_js_exported ''count'' (JInt (- 3)) False =
     JS_HasEvents_set_prop counter_js_exported ''count'' (JInt (- 3)) \<and>
   JS_set_prop counter_js_exported ''count'' (JInt (- 3)) False =
     Inr (counter_js_exported
            \<lparr>js_prop_values := (js_prop_values counter_js_exported)(''count'' \<mapsto> JInt (- 3))\<rparr>)"
proof -
  have a: "ws counter_js_exported = None"
    and b: "map_of (js_properties counter_js_exported) ''count'' = Some stub_prop_func"
    by (simp_all add: counter_js_exported_def counter_js_def)
  have c: "pbody stub_prop_func (JInt (- 3)) = Inr (JInt (- 3))"
    by (simp add: stub_prop_func_def)
  show ?thesis
    using exported_set_prop_is_base_set_prop [OF a b c, of False] a b c by blast
qed

section \<open>Construction\<close>

lemma init_prop_sent:
  assumes "Model_init_prop self n = Inr self'"
  shows "properties self' = properties self \<and> proxy_properties self' = proxy_properties self \<and>
         model_id self' = model_id self \<and>
         session_exec self' = session_exec self @
           (if n \<in> set (proxy_properties self) then []
            else [Set_prop_from_py (model_id self) n (saves (default_value (properties self) n))])"
  using assms
  by (auto simp: Model_init_prop_def HasEvents_init_prop_def getattr_def exec_def default_value_def
      normalized_def Let_def split: option.splits sum.splits if_splits)

lemma set_prop_sent:
  assumes "Model_set_prop self n v False = Inr self'"
  shows "properties self' = properties self \<and> proxy_properties self' = proxy_properties self \<and>
         model_id self' = model_id self \<and>
         session_exec self' = session_exec self @
           [Set_prop_from_py (model_id self) n
              (saves (if n \<in> set (proxy_properties self) then v else normalized (properties self) n v))]"
  using assms
  by (auto simp: Model_set_prop_def HasEvents_set_prop_def getattr_def exec_def
      normalized_def Let_def split: option.splits sum.splits if_splits)

lemma init_props_sent:
  "init_props self names = Inr self' \<Longrightarrow>
   properties self' = properties self \<and> proxy_properties self' = proxy_properties self \<and>
   model_id self' = model_id self \<and>
   session_exec self' = session_exec self @
     map (\<lambda>n. Set_prop_from_py (model_id self) n (saves (default_value (properties self) n)))
       (filter (\<lambda>n. n \<notin> set (proxy_properties self)) names)"
proof (induction names arbitrary: self)
  case Nil
  then show ?case by simp
next
  case (Cons n names)
  from Cons.prems obtain s1 where s1: "Model_init_prop self n = Inr s1"
    and rest: "init_props s1 names = Inr self'"
    by (auto split: sum.splits)
  from init_prop_sent [OF s1] Cons.IH [OF rest] show ?case by simp
qed

lemma set_props_sent:
  "set_props self kwargs = Inr self' \<Longrightarrow>
   properties self' = properties self \<and> proxy_properties self' = proxy_properties self \<and>
   model_id self' = model_id self \<and>
   session_exec self' = session_exec self @
     map (\<lambda>nv. Set_prop_from_py (model_id self) (fst nv)
        (saves (if fst nv \<in> set (proxy_properties self) then snd nv
                else normalized (properties self) (fst nv) (snd nv)))) kwargs"
proof (induction kwargs arbitrary: self)
  case Nil
  then show ?case by simp
next
  case (Cons nv kwargs)
  obtain n v where nv: "nv = (n, v)" by (cases nv)
  from Cons.prems nv obtain s1 where s1: "Model_set_prop self n v False = Inr s1"
    and rest: "set_props s1 kwargs = Inr self'"
    by (auto simp: Model_setattr_def split: sum.splits)
  from set_prop_sent [OF s1] Cons.IH [OF rest] show ?case by (simp add: nv)
qed

lemma init_with_id_sent:
  assumes "Model_init_with_id cls ident kwargs = Inr self"
  shows "session_exec self =
     Instantiate ident (''flexx.classes.'' @ class_name cls)
       (saves (JList (map JStr (concat (map snd (class_handlers cls)))))) #
     map (default_command cls ident)
       (filter (\<lambda>n. n \<notin> set (class_proxy_properties cls))
          (filter (\<lambda>n. n \<notin> set (map fst kwargs)) (map fst (class_properties cls)))) @
     map (value_command cls ident) kwargs
     \<and> model_id self = ident \<and> properties self = class_properties cls
     \<and> proxy_properties self = class_proxy_properties cls"
proof -
  let ?s0 = "exec \<lparr>model_id = ident, properties = class_properties cls,
                  proxy_properties = class_proxy_properties cls,
                  prop_values = Map.empty,
                  event_types_js = concat (map snd (class_JS_handlers cls)),
                  pending_events_from_js = [],
                  session_exec = [],
                  session_registered = [class_name cls],
                  scheduled = [],
                  emitted = []\<rparr>
          (Instantiate ident (''flexx.classes.'' @ class_name cls)
             (saves (JList (map JStr (concat (map snd (class_handlers cls)))))))"
  from assms have h: "HasEvents_init ?s0 kwargs = Inr self"
    by (simp add: Model_init_with_id_def Let_def)
  then obtain s1 where
    s1: "init_props ?s0
           (filter (\<lambda>name. name \<notin> set (map fst kwargs)) (map fst (properties ?s0))) = Inr s1"
    and s2: "set_props s1 kwargs = Inr self"
    by (auto simp: HasEvents_init_def split: sum.splits)
  from init_props_sent [OF s1] set_props_sent [OF s2]
  show ?thesis
    by (simp add: exec_def default_command_def value_command_def)
qed

lemma pushes_of_append:
  "pushes_of ident name (xs @ ys) = pushes_of ident name xs @ pushes_of ident name ys"
  by (induction ident name xs rule: pushes_of.induct) auto

lemma pushes_of_defaults:
  "distinct ns \<Longrightarrow>
   pushes_of ident name (map (default_command cls ident) ns) =
     (if name \<in> set ns then [saves (default_value (class_properties cls) name)] else [])"
  by (induction ns) (auto simp: default_command_def)

lemma pushes_of_values:
  "distinct (map fst kwargs) \<Longrightarrow>
   pushes_of ident name (map (value_command cls ident) kwargs) =
     (case map_of kwargs name of
        None \<Rightarrow> []
      | Some v \<Rightarrow>
          [saves (if name \<in> set (class_proxy_properties cls) then v
                  else normalized (class_properties cls) name v)])"
proof (induction kwargs)
  case Nil
  show ?case by simp
next
  case (Cons nv kwargs)
  obtain n v where nv: "nv = (n, v)" by (cases nv)
  from Cons.prems have d: "distinct (map fst kwargs)" and fresh: "n \<notin> fst ` set kwargs"
    by (simp_all add: nv)
  from fresh have none: "map_of kwargs n = None"
    by (simp add: map_of_eq_None_iff)
  show ?case
  proof (cases "n = name")
    case True
    with none have "map_of kwargs name = None" by simp
    with Cons.IH [OF d] True show ?thesis
      by (simp add: nv value_command_def)
  next
    case False
    with Cons.IH [OF d] show ?thesis
      by (simp add: nv value_command_def)
  qed
qed

lemma init_prop_keeps_queue:
  assumes "Model_init_prop self n = Inr self'"
  shows "pending_events_from_js self' = pending_events_from_js self \<and>
         scheduled self' = scheduled self"
  using assms
  by (auto simp: Model_init_prop_def HasEvents_init_prop_def getattr_def exec_def Let_def
      split: option.splits sum.splits if_splits)

lemma set_prop_keeps_queue:
  assumes "Model_set_prop self n v fromjs = Inr self'"
  shows "pending_events_from_js self' = pending_events_from_js self \<and>
         scheduled self' = scheduled self"
  using assms
  by (auto simp: Model_set_prop_def HasEvents_set_prop_def getattr_def exec_def Let_def
      split: option.splits sum.splits if_splits)

lemma init_props_keep_queue:
  "init_props self names = Inr self' \<Longrightarrow>
   pending_events_from_js self' = pending_events_from_js self \<and> scheduled self' = scheduled self"
proof (induction names arbitrary: self)
  case Nil
  then show ?case by simp
next
  case (Cons n names)
  from Cons.prems obtain s1 where s1: "Model_init_prop self n = Inr s1"
    and rest: "init_props s1 names = Inr self'"
    by (auto split: sum.splits)
  from init_prop_keeps_queue [OF s1] Cons.IH [OF rest] show ?case by simp
qed

lemma set_props_keep_queue:
  "set_props self kwargs = Inr self' \<Longrightarrow>
   pending_events_from_js self' = pending_events_from_js self \<and> scheduled self' = scheduled self"
proof (induction kwargs arbitrary: self)
  case Nil
  then show ?case by simp
next
  case (Cons nv kwargs)
  obtain n v where nv: "nv = (n, v)" by (cases nv)
  from Cons.prems nv obtain s1 where s1: "Model_set_prop self n v False = Inr s1"
    and rest: "set_props s1 kwargs = Inr self'"
    by (auto simp: Model_setattr_def split: sum.splits)
  from set_prop_keeps_queue [OF s1] Cons.IH [OF rest] show ?case by simp
qed

text \<open>
  A new instance has no pending events and no drain scheduled: the state in which a burst
  of events from JavaScript finds it.
\<close>

lemma new_instance_is_idle:
  assumes "Model_init_with_id cls ident kwargs = Inr self"
  shows "pending_events_from_js self = [] \<and> scheduled self = []"
proof -
  let ?s0 = "exec \<lparr>model_id = ident, properties = class_properties cls,
                  proxy_properties = class_proxy_properties cls,
                  prop_values = Map.empty,
                  event_types_js = concat (map snd (class_JS_handlers cls)),
                  pending_events_from_js = [],
                  session_exec = [],
                  session_registered = [class_name cls],
                  scheduled = [],
                  emitted = []\<rparr>
          (Instantiate ident (''flexx.classes.'' @ class_name cls)
             (saves (JList (map JStr (concat (map snd (class_handlers cls)))))))"
  have s0: "pending_events_from_js ?s0 = [] \<and> scheduled ?s0 = []"
    by (simp add: exec_def)
  from assms have "HasEvents_init ?s0 kwargs = Inr self"
    by (simp add: Model_init_with_id_def Let_def)
  then obtain s1 where
    s1: "init_props ?s0
           (filter (\<lambda>name. name \<notin> set (map fst kwargs)) (map fst (properties ?s0))) = Inr s1"
    and s2: "set_props s1 kwargs = Inr self"
    by (auto simp: HasEvents_init_def split: sum.splits)
  from init_props_keep_queue [OF s1] set_props_keep_queue [OF s2] s0 show ?thesis
    by simp
qed

lemma init_counter: "Model_init process0 Counter [] = Inr (0, process1)"
  by (simp add: Model_init_def process0_def process1_def counter_new_def Counter_def count_func_def
      stub_prop_func_def Model_init_with_id_def HasEvents_init_def Model_init_prop_def
      HasEvents_init_prop_def getattr_def exec_def Let_def str_def str_nat.simps digit_def)

lemma set_counter:
  "Model_setattr counter_new ''count'' (JInt 5) =
     Inr (counter_new\<lparr>prop_values := [''count'' \<mapsto> JInt 5, ''size'' \<mapsto> JNone],
        session_exec := [Instantiate ''Counter1'' ''flexx.classes.Counter'' (saves (JList [])),
         Set_prop_from_py ''Counter1'' ''count'' (saves (JInt 0)),
         Set_prop_from_py ''Counter1'' ''count'' (saves (JInt 5))]\<rparr>)"
  by (simp add: Model_setattr_def Model_set_prop_def HasEvents_set_prop_def getattr_def exec_def
      counter_new_def count_func_def fun_upd_twist)

lemma init_counter_given:
  "Model_init process0 Counter [(''count'', JInt 5)] = Inr (0, process_given)"
  by (simp add: Model_init_def process0_def process_given_def counter_given_def Counter_def
      count_func_def stub_prop_func_def Model_init_with_id_def HasEvents_init_def
      Model_init_prop_def HasEvents_init_prop_def Model_setattr_def Model_set_prop_def
      HasEvents_set_prop_def getattr_def exec_def Let_def str_def str_nat.simps digit_def)

text \<open>
  C1. A construction that succeeds has sent exactly one command that sets a given
  property that is no proxy: the command carries the initial value of the property, which
  is the value given to the constructor, normalized, or else the normalized default. A set
  of the property after the construction adds exactly one command to those sent, with the
  new value; what was sent before stays as it is and is not sent again.
\<close>

theorem construction_sends_one_command_per_property:
  assumes "Model_init w cls kwargs = Inr (r, w')"
    and "objects w' r = Some m"
    and "distinct (map fst (class_properties cls))" and "distinct (map fst kwargs)"
    and "name \<in> set (map fst (class_properties cls))"
    and "name \<notin> set (class_proxy_properties cls)"
  shows "pushes_of (class_name cls @ str (Model_counter w + 1)) name (session_exec m) =
           [saves (initial_value cls kwargs name)] \<and>
         (\<forall>v m'. Model_setattr m name v = Inr m' \<longrightarrow>
            session_exec m' =
              session_exec m @
                [Set_prop_from_py (class_name cls @ str (Model_counter w + 1)) name
                   (saves (normalized (class_properties cls) name v))])"
proof -
  let ?ident = "class_name cls @ str (Model_counter w + 1)"
  let ?defaults = "filter (\<lambda>n. n \<notin> set (class_proxy_properties cls))
      (filter (\<lambda>n. n \<notin> set (map fst kwargs)) (map fst (class_properties cls)))"
  show ?thesis
  proof (cases "Model_init_with_id cls ?ident kwargs")
    case (Inl e)
    with assms(1) show ?thesis
      by (simp add: Model_init_def Let_def)
  next
    case (Inr m0)
    with assms(1) have r: "r = fresh w"
      and w': "objects w' = (objects w)(fresh w \<mapsto> m0)"
      by (auto simp add: Model_init_def Let_def)
    from assms(2) have m: "m = m0"
      by (simp add: w' r)
    note built = init_with_id_sent [OF Inr]
    have d: "distinct ?defaults"
      using assms(3) by simp
    from built have se: "session_exec m0 =
        Instantiate ?ident (''flexx.classes.'' @ class_name cls)
          (saves (JList (map JStr (concat (map snd (class_handlers cls)))))) #
        map (default_command cls ?ident) ?defaults @ map (value_command cls ?ident) kwargs"
      by blast
    have split: "pushes_of ?ident name (session_exec m) =
        pushes_of ?ident name (map (default_command cls ?ident) ?defaults) @
        pushes_of ?ident name (map (value_command cls ?ident) kwargs)"
      by (simp only: m se pushes_of.simps pushes_of_append)
    have first: "pushes_of ?ident name (session_exec m) =
        [saves (initial_value cls kwargs name)]"
    proof (cases "map_of kwargs name")
      case None
      then have "name \<notin> set (map fst kwargs)"
        by (simp add: map_of_eq_None_iff)
      with assms(5) assms(6) have "name \<in> set ?defaults"
        by simp
      then have "pushes_of ?ident name (map (default_command cls ?ident) ?defaults) =
          [saves (default_value (class_properties cls) name)]"
        by (simp only: pushes_of_defaults [OF d] if_True)
      moreover have "pushes_of ?ident name (map (value_command cls ?ident) kwargs) = []"
        by (simp only: pushes_of_values [OF assms(4)] None option.case)
      ultimately show ?thesis
        by (simp only: split initial_value_def None option.case append_Nil2)
    next
      case (Some v)
      then have "name \<in> set (map fst kwargs)"
        by (metis map_of_eq_None_iff option.distinct(1) set_map)
      then have "name \<notin> set ?defaults"
        by simp
      then have "pushes_of ?ident name (map (default_command cls ?ident) ?defaults) = []"
        by (simp only: pushes_of_defaults [OF d] if_False)
      moreover have "pushes_of ?ident name (map (value_command cls ?ident) kwargs) =
          [saves (normalized (class_properties cls) name v)]"
        using assms(6) by (simp only: pushes_of_values [OF assms(4)] Some option.case if_False)
      ultimately show ?thesis
        by (simp only: split initial_value_def Some option.case append_Nil)
    qed
    have later: "session_exec m' =
        session_exec m @
          [Set_prop_from_py ?ident name (saves (normalized (class_properties cls) name v))]"
      if "Model_setattr m name v = Inr m'" for v m'
    proof -
      from that have "Model_set_prop m0 name v False = Inr m'"
        by (simp add: Model_setattr_def m)
      from set_prop_sent [OF this] built assms(6) show ?thesis
        by (simp add: m)
    qed
    from first later show ?thesis by blast
  qed
qed

theorem construction_sends_one_command_per_property_witness:
  "Model_init process0 Counter [] = Inr (0, process1) \<and>
   objects process1 0 = Some counter_new \<and>
   Model_init process0 Counter [(''count'', JInt 5)] = Inr (0, process_given) \<and>
   objects process_given 0 = Some counter_given \<and>
   distinct (map fst (class_properties Counter)) \<and>
   distinct (map fst [(''count'', JInt 5)]) \<and>
   ''count'' \<in> set (map fst (class_properties Counter)) \<and>
   ''count'' \<notin> set (class_proxy_properties Counter) \<and>
   pushes_of ''Counter1'' ''count'' (session_exec counter_new) = [saves (JInt 0)] \<and>
   pushes_of ''Counter1'' ''count'' (session_exec counter_given) = [saves (JInt 5)] \<and>
   Model_setattr counter_new ''count'' (JInt 5) =
     Inr (counter_new\<lparr>prop_values := [''count'' \<mapsto> JInt 5, ''size'' \<mapsto> JNone],
        session_exec := [Instantiate ''Counter1'' ''flexx.classes.Counter'' (saves (JList [])),
         Set_prop_from_py ''Counter1'' ''count'' (saves (JInt 0)),
         Set_prop_from_py ''Counter1'' ''count'' (saves (JInt 5))]\<rparr>) \<and>
   session_exec (counter_new\<lparr>prop_values := [''count'' \<mapsto> JInt 5, ''size'' \<mapsto> JNone],
        session_exec := [Instantiate ''Counter1'' ''flexx.classes.Counter'' (saves (JList [])),
         Set_prop_from_py ''Counter1'' ''count'' (saves (JInt 0)),
         Set_prop_from_py ''Counter1'' ''count'' (saves (JInt 5))]\<rparr>) =
     session_exec counter_new @ [Set_prop_from_py ''Counter1'' ''count'' (saves (JInt 5))]"
proof -
  have o: "objects process1 0 = Some counter_new"
    by (simp add: process1_def)
  have og: "objects process_given 0 = Some counter_given"
    by (simp add: process_given_def)
  have dp: "distinct (map fst (class_properties Counter))"
    and ip: "''count'' \<in> set (map fst (class_properties Counter))"
    and np: "''count'' \<notin> set (class_proxy_properties Counter)"
    by (simp_all add: Counter_def)
  have d0: "distinct (map fst ([] :: (string \<times> jvalue) list))"
    and d5: "distinct (map fst [(''count'', JInt 5)])"
    by simp_all
  have ident: "class_name Counter @ str (Model_counter process0 + 1) = ''Counter1''"
    by (simp add: Counter_def process0_def str_def str_nat.simps digit_def)
  have i0: "initial_value Counter [] ''count'' = JInt 0"
    and i5: "initial_value Counter [(''count'', JInt 5)] ''count'' = JInt 5"
    and n5: "normalized (class_properties Counter) ''count'' (JInt 5) = JInt 5"
    by (simp_all add: initial_value_def default_value_def normalized_def Counter_def
        count_func_def)
  note plain = construction_sends_one_command_per_property [OF init_counter o dp d0 ip np]
  note given = construction_sends_one_command_per_property
    [OF init_counter_given og dp d5 ip np]
  have a: "pushes_of ''Counter1'' ''count'' (session_exec counter_new) = [saves (JInt 0)]"
    using plain [THEN conjunct1] by (simp only: ident i0)
  have b: "pushes_of ''Counter1'' ''count'' (session_exec counter_given) = [saves (JInt 5)]"
    using given [THEN conjunct1] by (simp only: ident i5)
  have c: "session_exec (counter_new\<lparr>prop_values := [''count'' \<mapsto> JInt 5, ''size'' \<mapsto> JNone],
        session_exec := [Instantiate ''Counter1'' ''flexx.classes.Counter'' (saves (JList [])),
         Set_prop_from_py ''Counter1'' ''count'' (saves (JInt 0)),
         Set_prop_from_py ''Counter1'' ''count'' (saves (JInt 5))]\<rparr>) =
     session_exec counter_new @ [Set_prop_from_py ''Counter1'' ''count'' (saves (JInt 5))]"
    using plain [THEN conjunct2, rule_format, OF set_counter] by (simp only: ident n5)
  from init_counter o init_counter_given og dp d5 ip np a b set_counter c
  show ?thesis by blast
qed

section \<open>Ids and entity references\<close>

lemma Model_init_registers:
  assumes "Model_init w cls kwargs = Inr (r, w')"
  shows "map_option model_id (objects w' r) = Some (class_name cls @ str (Model_counter w + 1)) \<and>
         Model_instances w' (class_name cls @ str (Model_counter w + 1)) = Some r \<and>
         Model_counter w' = Model_counter w + 1"
proof (cases "Model_init_with_id cls (class_name cls @ str (Model_counter w + 1)) kwargs")
  case (Inl e)
  with assms show ?thesis
    by (simp add: Model_init_def Let_def)
next
  case (Inr m)
  from init_with_id_sent [OF Inr] have "model_id m = class_name cls @ str (Model_counter w + 1)"
    by simp
  with assms Inr show ?thesis
    by (auto simp add: Model_init_def Let_def)
qed

lemma decode_of_registered:
  assumes "objects w r = Some m" and "Model_instances w (model_id m) = Some r"
  shows "Model_from_json w (Model_json m) = Inr (Some r)"
  using assms by (simp add: Model_json_def get_instance_by_id_def)

lemma decode_of_unknown_id:
  assumes "Model_instances w ident = None"
  shows "Model_from_json w (JDict [(''__type__'', JStr ''Flexx-Model''), (''id'', JStr ident)]) =
     Inr None"
  using assms by (simp add: get_instance_by_id_def)

lemma decode_after_reclaim:
  assumes "objects w r = Some m" and "Model_instances w (model_id m) = Some r"
  shows "Model_from_json (reclaim w r) (Model_json m) = Inr None"
  using assms by (simp add: Model_json_def get_instance_by_id_def reclaim_def)

lemma Model_init_plain:
  "Model_init w (plain_class n) [] =
     Inr (fresh w,
          w\<lparr>Model_counter := Model_counter w + 1,
            Model_instances := (Model_instances w)(n @ str (Model_counter w + 1) \<mapsto> fresh w),
            objects := (objects w)(fresh w \<mapsto>
              \<lparr>model_id = n @ str (Model_counter w + 1), properties = [], proxy_properties = [],
               prop_values = Map.empty, event_types_js = [], pending_events_from_js = [],
               session_exec = [Instantiate (n @ str (Model_counter w + 1)) (''flexx.classes.'' @ n) (saves (JList []))],
               session_registered = [n], scheduled = [], emitted = []\<rparr>),
            fresh := Suc (fresh w)\<rparr>)"
  by (simp add: Model_init_def Model_init_with_id_def HasEvents_init_def plain_class_def exec_def Let_def)

lemma strs: "str 1 = ''1''" "str 2 = ''2''" "str 3 = ''3''" "str 4 = ''4''" "str 5 = ''5''" "str 6 = ''6''"
  "str 7 = ''7''" "str 8 = ''8''" "str 9 = ''9''" "str 10 = ''10''" "str 11 = ''11''"
  by (simp_all add: str_def str_nat.simps digit_def)

text \<open>
  C5. Eleven instances are constructed in a new process, the first of a class \<open>Foo1\<close>,
  the last of a class \<open>Foo\<close>. The first gets the id \<open>Foo1\<close> followed by \<open>1\<close>, the
  last gets the id \<open>Foo\<close> followed by \<open>11\<close>: two live objects, \<open>0\<close> and \<open>10\<close>, with
  the one id \<open>Foo11\<close>.
\<close>

theorem ids_of_two_live_instances_collide:
  "(case construct_all process0 eleven of
      Inl e \<Rightarrow> None
    | Inr (rs, w) \<Rightarrow> Some (rs, map (\<lambda>r. map_option model_id (objects w r)) rs)) =
   Some ([0, 1, 2, 3, 4, 5, 6, 7, 8, 9, 10],
         [Some ''Foo11'', Some ''Bar2'', Some ''Bar3'', Some ''Bar4'', Some ''Bar5'',
          Some ''Bar6'', Some ''Bar7'', Some ''Bar8'', Some ''Bar9'', Some ''Bar10'',
          Some ''Foo11''])"
  by (simp add: eleven_def process0_def Model_init_plain strs)

text \<open>
  C6. In the same process, the encoding of the first object decodes to the last object,
  which took its id in the dictionary of instances.
\<close>

theorem decode_returns_another_instance:
  "(case construct_all process0 eleven of
      Inl e \<Rightarrow> None
    | Inr (rs, w) \<Rightarrow>
        Some (case objects w 0 of
                None \<Rightarrow> Inl KeyError
              | Some m \<Rightarrow> Model_from_json w (Model_json m))) =
   Some (Inr (Some 10))"
  by (simp add: eleven_def process0_def Model_init_plain strs Model_json_def
      get_instance_by_id_def)

section \<open>Proxies\<close>

lemma setattr_new: "name \<notin> set (map fst d) \<Longrightarrow> setattr d name a = d @ [(name, a)]"
  by (induction d) auto

lemma grown_cls_refl: "grown_cls k k"
  by (simp add: grown_cls_def)

lemma hasattr_cls_grown: "grown_cls k k' \<Longrightarrow> hasattr_cls k n \<Longrightarrow> hasattr_cls k' n"
  by (auto simp: grown_cls_def hasattr_cls_def)

lemma grown_cls_trans: 
  assumes "grown_cls a b" "grown_cls b c" shows "grown_cls a c"
proof -
  have h: "\<And>n. \<not> hasattr_cls b n \<Longrightarrow> \<not> hasattr_cls a n"
    using hasattr_cls_grown [OF assms(1)] by blast
  from assms obtain ad1 ad2 where ad: "cls_dict b = cls_dict a @ ad1" "\<forall>n \<in> set (map fst ad1). \<not> hasattr_cls a n"
     "cls_dict c = cls_dict b @ ad2" "\<forall>n \<in> set (map fst ad2). \<not> hasattr_cls b n"
    unfolding grown_cls_def by blast
  from assms obtain n1 n2 where nn: "cls_proxy_properties b = cls_proxy_properties a @ n1" "\<forall>n \<in> set n1. \<not> hasattr_cls a n"
     "cls_proxy_properties c = cls_proxy_properties b @ n2" "\<forall>n \<in> set n2. \<not> hasattr_cls b n"
    unfolding grown_cls_def by blast
  from assms obtain w1 w2 where ww: "warnings b = warnings a @ w1" "warnings c = warnings b @ w2"
    unfolding grown_cls_def by blast
  have d: "cls_dict c = cls_dict a @ (ad1 @ ad2) \<and> (\<forall>n \<in> set (map fst (ad1 @ ad2)). \<not> hasattr_cls a n)"
    using ad h by auto
  have p: "cls_proxy_properties c = cls_proxy_properties a @ (n1 @ n2) \<and> (\<forall>n \<in> set (n1 @ n2). \<not> hasattr_cls a n)"
    using nn h by auto
  have w: "warnings c = warnings a @ (w1 @ w2)" using ww by simp
  from assms d p w show ?thesis unfolding grown_cls_def by (metis (no_types, lifting))
qed

lemma proxy_on_cls_grows: "grown_cls k (proxy_on_cls k item)"
proof -
  obtain name a where item: "item = (name, a)" by (cases item)
  show ?thesis
  proof (cases a)
    case (Property f)
    show ?thesis
      unfolding item Property
      by (auto simp: grown_cls_def hasattr_cls_def setattr_new)
  next
    case (Emitter f)
    show ?thesis
      unfolding item Emitter
      by (auto simp: grown_cls_def hasattr_cls_def setattr_new)
  next
    case Other
    then show ?thesis by (simp add: item grown_cls_refl)
  qed
qed

lemma first_loop_grows: "grown_cls k (foldl proxy_on_cls k items)"
proof (induction items arbitrary: k)
  case Nil
  show ?case by (simp add: grown_cls_refl)
next
  case (Cons item items)
  show ?case
    using grown_cls_trans [OF proxy_on_cls_grows Cons.IH] by simp
qed


lemma grown_cls_keeps_out:
  "grown_cls k k' \<Longrightarrow> hasattr_cls k n \<Longrightarrow> n \<notin> set (cls_proxy_properties k) \<Longrightarrow>
   n \<notin> set (cls_proxy_properties k')"
  by (auto simp: grown_cls_def)

lemma grown_cls_keeps_attr:
  assumes "grown_cls k k'" and "hasattr_cls k n"
  shows "map_of (cls_dict k') n = map_of (cls_dict k) n"
proof -
  from assms(1) obtain added where a: "cls_dict k' = cls_dict k @ added"
    and b: "\<forall>m \<in> set (map fst added). \<not> hasattr_cls k m"
    unfolding grown_cls_def by blast
  from b assms(2) have "n \<notin> fst ` set added" by auto
  then have "map_of added n = None" by (simp add: map_of_eq_None_iff)
  then show ?thesis by (simp add: a map_add_def split: option.splits)
qed

lemma grown_cls_warnings: "grown_cls k k' \<Longrightarrow> w \<in> set (warnings k) \<Longrightarrow> w \<in> set (warnings k')"
  by (auto simp: grown_cls_def)

lemma first_loop_warns:
  "(name, Property f) \<in> set items \<Longrightarrow> name \<notin> set (JS_proxy_properties k) \<Longrightarrow>
   name \<notin> set (cls_proxy_properties k) \<Longrightarrow> hasattr_cls k name \<Longrightarrow>
   JS_property_not_proxied name (cls_name k) \<in> set (warnings (foldl proxy_on_cls k items))"
proof (induction items arbitrary: k)
  case Nil
  then show ?case by simp
next
  case (Cons item items)
  let ?k1 = "proxy_on_cls k item"
  have g: "grown_cls k ?k1" by (rule proxy_on_cls_grows)
  show ?case
  proof (cases "item = (name, Property f)")
    case True
    with Cons.prems have "JS_property_not_proxied name (cls_name k) \<in> set (warnings ?k1)"
      by simp
    from grown_cls_warnings [OF first_loop_grows this] show ?thesis by simp
  next
    case False
    with Cons.prems have m: "(name, Property f) \<in> set items" by simp
    have a: "name \<notin> set (JS_proxy_properties ?k1)"
      using g Cons.prems(2) by (simp add: grown_cls_def)
    have b: "name \<notin> set (cls_proxy_properties ?k1)"
      using grown_cls_keeps_out [OF g Cons.prems(4) Cons.prems(3)] .
    have c: "hasattr_cls ?k1 name"
      using hasattr_cls_grown [OF g Cons.prems(4)] .
    have n: "cls_name ?k1 = cls_name k"
      using g by (simp add: grown_cls_def)
    from Cons.IH [OF m a b c] show ?thesis by (simp add: n)
  qed
qed

lemma grown_JS_refl: "grown_JS k k"
  by (simp add: grown_JS_def)

lemma hasattr_JS_grown: "grown_JS k k' \<Longrightarrow> hasattr_JS k n \<Longrightarrow> hasattr_JS k' n"
  by (auto simp: grown_JS_def hasattr_JS_def)

lemma grown_JS_trans: 
  assumes "grown_JS a b" "grown_JS b c" shows "grown_JS a c"
proof -
  have h: "\<And>n. \<not> hasattr_JS b n \<Longrightarrow> \<not> hasattr_JS a n"
    using hasattr_JS_grown [OF assms(1)] by blast
  from assms obtain ad1 ad2 where ad: "JS_dict b = JS_dict a @ ad1" "\<forall>n \<in> set (map fst ad1). \<not> hasattr_JS a n"
     "JS_dict c = JS_dict b @ ad2" "\<forall>n \<in> set (map fst ad2). \<not> hasattr_JS b n"
    unfolding grown_JS_def by blast
  from assms obtain n1 n2 where nn: "JS_proxy_properties b = JS_proxy_properties a @ n1" "\<forall>n \<in> set n1. \<not> hasattr_JS a n"
     "JS_proxy_properties c = JS_proxy_properties b @ n2" "\<forall>n \<in> set n2. \<not> hasattr_JS b n"
    unfolding grown_JS_def by blast
  from assms obtain w1 w2 where ww: "warnings b = warnings a @ w1" "warnings c = warnings b @ w2"
    unfolding grown_JS_def by blast
  have d: "JS_dict c = JS_dict a @ (ad1 @ ad2) \<and> (\<forall>n \<in> set (map fst (ad1 @ ad2)). \<not> hasattr_JS a n)"
    using ad h by auto
  have p: "JS_proxy_properties c = JS_proxy_properties a @ (n1 @ n2) \<and> (\<forall>n \<in> set (n1 @ n2). \<not> hasattr_JS a n)"
    using nn h by auto
  have w: "warnings c = warnings a @ (w1 @ w2)" using ww by simp
  from assms d p w show ?thesis unfolding grown_JS_def by (metis (no_types, lifting))
qed

lemma proxy_on_JS_grows: "grown_JS k (proxy_on_JS k item)"
proof -
  obtain name a where item: "item = (name, a)" by (cases item)
  show ?thesis
  proof (cases a)
    case (Property f)
    show ?thesis
      unfolding item Property
      by (auto simp: grown_JS_def hasattr_JS_def setattr_new)
  next
    case (Emitter f)
    show ?thesis
      unfolding item Emitter
      by (auto simp: grown_JS_def hasattr_JS_def)
  next
    case Other
    then show ?thesis by (simp add: item grown_JS_refl)
  qed
qed

lemma second_loop_grows: "grown_JS k (foldl proxy_on_JS k items)"
proof (induction items arbitrary: k)
  case Nil
  show ?case by (simp add: grown_JS_refl)
next
  case (Cons item items)
  show ?case
    using grown_JS_trans [OF proxy_on_JS_grows Cons.IH] by simp
qed

lemma proxy_on_JS_keeps_cls_dict:
  "hasattr_cls k (fst item) \<Longrightarrow> cls_dict (proxy_on_JS k item) = cls_dict k"
  by (cases item, cases "snd item") auto

lemma second_loop_keeps_cls_dict:
  "\<forall>item \<in> set items. hasattr_cls k (fst item) \<Longrightarrow>
   cls_dict (foldl proxy_on_JS k items) = cls_dict k"
proof (induction items arbitrary: k)
  case Nil
  show ?case by simp
next
  case (Cons item items)
  let ?k1 = "proxy_on_JS k item"
  have d: "cls_dict ?k1 = cls_dict k"
    using Cons.prems by (simp add: proxy_on_JS_keeps_cls_dict)
  have i: "cls_inherited ?k1 = cls_inherited k"
    using proxy_on_JS_grows [of k item] by (simp add: grown_JS_def)
  have "\<forall>item \<in> set items. hasattr_cls ?k1 (fst item)"
    using Cons.prems by (simp add: hasattr_cls_def d i)
  from Cons.IH [OF this] d show ?case by simp
qed

lemma grown_JS_keeps_out:
  "grown_JS k k' \<Longrightarrow> hasattr_JS k n \<Longrightarrow> n \<notin> set (JS_proxy_properties k) \<Longrightarrow>
   n \<notin> set (JS_proxy_properties k')"
  by (auto simp: grown_JS_def)

lemma grown_JS_keeps_attr:
  assumes "grown_JS k k'" and "hasattr_JS k n"
  shows "map_of (JS_dict k') n = map_of (JS_dict k) n"
proof -
  from assms(1) obtain added where a: "JS_dict k' = JS_dict k @ added"
    and b: "\<forall>m \<in> set (map fst added). \<not> hasattr_JS k m"
    unfolding grown_JS_def by blast
  from b assms(2) have "n \<notin> fst ` set added" by auto
  then have "map_of added n = None" by (simp add: map_of_eq_None_iff)
  then show ?thesis by (simp add: a map_add_def split: option.splits)
qed

lemma grown_JS_warnings: "grown_JS k k' \<Longrightarrow> w \<in> set (warnings k) \<Longrightarrow> w \<in> set (warnings k')"
  by (auto simp: grown_JS_def)

lemma second_loop_warns:
  "(name, Property f) \<in> set items \<Longrightarrow> name \<notin> set (JS_proxy_properties k) \<Longrightarrow>
   name \<notin> set (cls_proxy_properties k) \<Longrightarrow> hasattr_JS k name \<Longrightarrow>
   Py_property_not_proxied name (cls_name k) \<in> set (warnings (foldl proxy_on_JS k items))"
proof (induction items arbitrary: k)
  case Nil
  then show ?case by simp
next
  case (Cons item items)
  let ?k1 = "proxy_on_JS k item"
  have g: "grown_JS k ?k1" by (rule proxy_on_JS_grows)
  show ?case
  proof (cases "item = (name, Property f)")
    case True
    with Cons.prems have "Py_property_not_proxied name (cls_name k) \<in> set (warnings ?k1)"
      by simp
    from grown_JS_warnings [OF second_loop_grows this] show ?thesis by simp
  next
    case False
    with Cons.prems have m: "(name, Property f) \<in> set items" by simp
    have a: "name \<notin> set (JS_proxy_properties ?k1)"
      using grown_JS_keeps_out [OF g Cons.prems(4) Cons.prems(2)] .
    have b: "name \<notin> set (cls_proxy_properties ?k1)"
      using g Cons.prems(3) by (simp add: grown_JS_def)
    have c: "hasattr_JS ?k1 name"
      using hasattr_JS_grown [OF g Cons.prems(4)] .
    have n: "cls_name ?k1 = cls_name k"
      using g by (simp add: grown_JS_def)
    from Cons.IH [OF m a b c] show ?thesis by (simp add: n)
  qed
qed


lemma meta_init_collision_on_cls:
  assumes "(name, Property f) \<in> set (JS_dict k)"
    and "name \<notin> set (JS_proxy_properties k)" and "name \<notin> set (cls_proxy_properties k)"
    and "hasattr_cls k name"
  shows "JS_property_not_proxied name (cls_name k) \<in> set (warnings (ModelMeta_init k)) \<and>
         name \<notin> set (cls_proxy_properties (ModelMeta_init k)) \<and>
         cls_attr (ModelMeta_init k) name = cls_attr k name"
proof -
  let ?k1 = "foldl proxy_on_cls k (JS_dict k)"
  let ?k2 = "foldl proxy_on_JS ?k1 (cls_dict ?k1)"
  have g1: "grown_cls k ?k1" by (rule first_loop_grows)
  have g2: "grown_JS ?k1 ?k2" by (rule second_loop_grows)
  have w1: "JS_property_not_proxied name (cls_name k) \<in> set (warnings ?k1)"
    using first_loop_warns [OF assms] .
  have w2: "JS_property_not_proxied name (cls_name k) \<in> set (warnings ?k2)"
    using grown_JS_warnings [OF g2 w1] .
  have p1: "name \<notin> set (cls_proxy_properties ?k1)"
    using grown_cls_keeps_out [OF g1 assms(4) assms(3)] .
  have p2: "name \<notin> set (cls_proxy_properties ?k2)"
    using g2 p1 by (simp add: grown_JS_def)
  have own: "\<forall>item \<in> set (cls_dict ?k1). hasattr_cls ?k1 (fst item)"
    by (simp add: hasattr_cls_def)
  have d2: "cls_dict ?k2 = cls_dict ?k1"
    using second_loop_keeps_cls_dict [OF own] .
  have a: "map_of (cls_dict ?k2) name = map_of (cls_dict k) name"
    using grown_cls_keeps_attr [OF g1 assms(4)] d2 by simp
  from w2 p2 a show ?thesis
    by (simp add: ModelMeta_init_def Let_def cls_attr_def)
qed

lemma meta_init_collision_on_JS:
  assumes "(name, Property f) \<in> set (cls_dict k)"
    and "name \<notin> set (JS_proxy_properties k)" and "name \<notin> set (cls_proxy_properties k)"
    and "hasattr_JS k name"
  shows "Py_property_not_proxied name (cls_name k) \<in> set (warnings (ModelMeta_init k)) \<and>
         name \<notin> set (JS_proxy_properties (ModelMeta_init k)) \<and>
         JS_attr (ModelMeta_init k) name = JS_attr k name"
proof -
  let ?k1 = "foldl proxy_on_cls k (JS_dict k)"
  let ?k2 = "foldl proxy_on_JS ?k1 (cls_dict ?k1)"
  have g1: "grown_cls k ?k1" by (rule first_loop_grows)
  have g2: "grown_JS ?k1 ?k2" by (rule second_loop_grows)
  have own: "hasattr_cls k name"
    using assms(1) by (force simp: hasattr_cls_def)
  have m: "(name, Property f) \<in> set (cls_dict ?k1)"
    using g1 assms(1) by (auto simp: grown_cls_def)
  have a: "name \<notin> set (JS_proxy_properties ?k1)"
    using g1 assms(2) by (simp add: grown_cls_def)
  have b: "name \<notin> set (cls_proxy_properties ?k1)"
    using grown_cls_keeps_out [OF g1 own assms(3)] .
  have c: "hasattr_JS ?k1 name"
    using g1 assms(4) by (simp add: grown_cls_def hasattr_JS_def)
  have n: "cls_name ?k1 = cls_name k"
    using g1 by (simp add: grown_cls_def)
  have w: "Py_property_not_proxied name (cls_name k) \<in> set (warnings ?k2)"
    using second_loop_warns [OF m a b c] by (simp add: n)
  have p: "name \<notin> set (JS_proxy_properties ?k2)"
    using grown_JS_keeps_out [OF g2 c a] .
  have d: "map_of (JS_dict ?k2) name = map_of (JS_dict k) name"
    using grown_JS_keeps_attr [OF g2 c] g1 by (simp add: grown_cls_def)
  from w p d show ?thesis
    by (simp add: ModelMeta_init_def Let_def JS_attr_def)
qed

lemma setattr_names: "fst ` set (setattr d name a) = insert name (fst ` set d)"
proof (induction d)
  case Nil
  show ?case by simp
next
  case (Cons p d)
  obtain n b where p: "p = (n, b)" by (cases p)
  show ?case
  proof (cases "n = name")
    case True
    then show ?thesis by (simp add: p)
  next
    case False
    then show ?thesis using Cons.IH by (simp add: p insert_commute)
  qed
qed

lemma second_loop_JS_names:
  "n \<in> set (map fst (JS_dict (foldl proxy_on_JS k items))) \<Longrightarrow>
   n \<in> set (map fst (JS_dict k)) \<or> (\<exists>f. (n, Property f) \<in> set items)"
proof (induction items arbitrary: k)
  case Nil
  then show ?case by simp
next
  case (Cons item items)
  obtain name a where item: "item = (name, a)" by (cases item)
  from Cons.IH [of "proxy_on_JS k item"] Cons.prems
  have "n \<in> set (map fst (JS_dict (proxy_on_JS k item))) \<or> (\<exists>f. (n, Property f) \<in> set items)"
    by simp
  then show ?case
  proof
    assume h: "n \<in> set (map fst (JS_dict (proxy_on_JS k item)))"
    show ?thesis
    proof (cases a)
      case (Property f)
      have "fst ` set (JS_dict (proxy_on_JS k item)) \<subseteq> insert name (fst ` set (JS_dict k))"
        unfolding item Property by (simp add: setattr_names subset_insertI)
      with h have "n = name \<or> n \<in> set (map fst (JS_dict k))" by auto
      with item Property show ?thesis by auto
    next
      case (Emitter f)
      with h item show ?thesis by (auto split: if_splits)
    next
      case Other
      with h item show ?thesis by simp
    qed
  next
    assume "\<exists>f. (n, Property f) \<in> set items"
    then show ?thesis by auto
  qed
qed

lemma emitter_of_cls_never_proxied_on_JS:
  assumes "name \<in> set (map fst (cls_dict k))"
    and "\<forall>f. (name, Property f) \<notin> set (cls_dict k)"
    and "name \<notin> set (map fst (JS_dict k))"
  shows "JS_attr (ModelMeta_init k) name = None"
proof -
  let ?k1 = "foldl proxy_on_cls k (JS_dict k)"
  let ?k2 = "foldl proxy_on_JS ?k1 (cls_dict ?k1)"
  have g1: "grown_cls k ?k1" by (rule first_loop_grows)
  have own: "hasattr_cls k name"
    using assms(1) by (simp add: hasattr_cls_def)
  from g1 obtain added where a: "cls_dict ?k1 = cls_dict k @ added"
    and b: "\<forall>n \<in> set (map fst added). \<not> hasattr_cls k n"
    unfolding grown_cls_def by blast
  from b own have "name \<notin> fst ` set added" by auto
  then have "\<forall>f. (name, Property f) \<notin> set added" by force
  with assms(2) a have no_prop: "\<not> (\<exists>f. (name, Property f) \<in> set (cls_dict ?k1))"
    by simp
  have js1: "JS_dict ?k1 = JS_dict k"
    using g1 by (simp add: grown_cls_def)
  have "name \<notin> set (map fst (JS_dict ?k2))"
    using second_loop_JS_names [of name ?k1 "cls_dict ?k1"] no_prop assms(3) js1 by auto
  then have "map_of (JS_dict ?k2) name = None"
    by (simp add: map_of_eq_None_iff)
  then show ?thesis
    by (simp add: ModelMeta_init_def Let_def JS_attr_def)
qed

text \<open>
  C8. The class \<open>Pinger\<close> declares the emitter \<open>ping\<close> in Python and the emitter
  \<open>pong\<close> in JavaScript. After the proxies are set up, Python has a proxy for \<open>pong\<close>
  that raises when it is called, and JavaScript has no attribute \<open>ping\<close>.
\<close>

theorem python_emitter_gets_no_JS_proxy:
  "JS_attr (ModelMeta_init Pinger) ''ping'' = None \<and>
   cls_attr (ModelMeta_init Pinger) ''pong'' = Some (Emitter Stub_emitter_func_py) \<and>
   call declared Stub_emitter_func_py [] =
     Inl (RuntimeError ''This emitter can only be called from JavaScript'')"
  by (simp add: ModelMeta_init_def Pinger_def hasattr_cls_def hasattr_JS_def JS_attr_def
      cls_attr_def stub_emitter_func_py_def)

text \<open>
  C9. A property of the JavaScript class that is no proxy yet, and whose name the Python
  class has already, gets no proxy in Python: the name stays out of the proxies of the
  Python class, the attribute of the Python class stays what it was, and the warning is
  logged. In the same way a property of the Python class that is no proxy yet, and whose
  name the JavaScript class has already, gets no proxy in JavaScript. Each holds for a
  class with such a property, whatever else the class declares. Setting up the proxies has
  no error to return: it ends with the class \<open>ModelMeta_init k\<close>.
\<close>

theorem collision_skips_proxy_and_warns:
  "((name, Property f) \<in> set (JS_dict k) \<and>
    name \<notin> set (JS_proxy_properties k) \<and> name \<notin> set (cls_proxy_properties k) \<and>
    hasattr_cls k name \<longrightarrow>
      JS_property_not_proxied name (cls_name k) \<in> set (warnings (ModelMeta_init k)) \<and>
      name \<notin> set (cls_proxy_properties (ModelMeta_init k)) \<and>
      cls_attr (ModelMeta_init k) name = cls_attr k name) \<and>
   ((name, Property f) \<in> set (cls_dict k) \<and>
    name \<notin> set (JS_proxy_properties k) \<and> name \<notin> set (cls_proxy_properties k) \<and>
    hasattr_JS k name \<longrightarrow>
      Py_property_not_proxied name (cls_name k) \<in> set (warnings (ModelMeta_init k)) \<and>
      name \<notin> set (JS_proxy_properties (ModelMeta_init k)) \<and>
      JS_attr (ModelMeta_init k) name = JS_attr k name)"
  using meta_init_collision_on_cls [of name f k] meta_init_collision_on_JS [of name f k]
  by blast

theorem collision_skips_proxy_and_warns_witness:
  "(''title'', Property (Declared ''title'')) \<in> set (JS_dict Titled) \<and>
   ''title'' \<notin> set (JS_proxy_properties Titled) \<and>
   ''title'' \<notin> set (cls_proxy_properties Titled) \<and>
   hasattr_cls Titled ''title'' \<and>
   JS_property_not_proxied ''title'' (cls_name Titled) \<in> set (warnings (ModelMeta_init Titled)) \<and>
   ''title'' \<notin> set (cls_proxy_properties (ModelMeta_init Titled)) \<and>
   cls_attr (ModelMeta_init Titled) ''title'' = cls_attr Titled ''title'' \<and>
   (''size'', Property (Declared ''size'')) \<in> set (cls_dict Sized) \<and>
   ''size'' \<notin> set (JS_proxy_properties Sized) \<and>
   ''size'' \<notin> set (cls_proxy_properties Sized) \<and>
   hasattr_JS Sized ''size'' \<and>
   Py_property_not_proxied ''size'' (cls_name Sized) \<in> set (warnings (ModelMeta_init Sized)) \<and>
   ''size'' \<notin> set (JS_proxy_properties (ModelMeta_init Sized)) \<and>
   JS_attr (ModelMeta_init Sized) ''size'' = JS_attr Sized ''size''"
proof -
  have a: "(''title'', Property (Declared ''title'')) \<in> set (JS_dict Titled)"
    and b: "''title'' \<notin> set (JS_proxy_properties Titled)"
    and c: "''title'' \<notin> set (cls_proxy_properties Titled)"
    and d: "hasattr_cls Titled ''title''"
    by (simp_all add: Titled_def hasattr_cls_def)
  have e: "(''size'', Property (Declared ''size'')) \<in> set (cls_dict Sized)"
    and f: "''size'' \<notin> set (JS_proxy_properties Sized)"
    and g: "''size'' \<notin> set (cls_proxy_properties Sized)"
    and h: "hasattr_JS Sized ''size''"
    by (simp_all add: Sized_def hasattr_JS_def)
  note on_cls = collision_skips_proxy_and_warns
    [of "''title''" "Declared ''title''" Titled, THEN conjunct1, rule_format,
     OF conjI, OF a conjI, OF b conjI, OF c d]
  note on_JS = collision_skips_proxy_and_warns
    [of "''size''" "Declared ''size''" Sized, THEN conjunct2, rule_format,
     OF conjI, OF e conjI, OF f conjI, OF g h]
  from on_cls on_JS a b c d e f g h show ?thesis by blast
qed

end
